theory Spec2Isabelle
  imports Main "HOL-Library.Sublist"
begin

section \<open>The world outside the server\<close>

text \<open>
  Python strings are modelled as \<open>string\<close>: the bytes of their UTF-8 form. What the
  server asks of the operating system and of the interpreter's libraries is collected in a
  record of functions, the world; every answer that can be an exception is a sum, with
  \<open>Inl\<close> the message of the exception (\<^verbatim>\<open>str(e)\<close>).
\<close>

text \<open>What a path names: a regular file or a directory, with the answer of
  \<^verbatim>\<open>os.access(path, os.X_OK)\<close> for the server's user.\<close>
datatype node = RegularFile (x_ok: bool) | Directory (x_ok: bool)

text \<open>
  A child process started through the shell:
  \<^item> \<open>run_time\<close>: the seconds until the shell has exited and both pipes are closed, which
    is what \<^verbatim>\<open>process.communicate()\<close> waits for (\<open>None\<close>: never, by itself);
  \<^item> \<open>returncode\<close>, \<open>stdout\<close>, \<open>stderr\<close>: its exit status and what it writes, decoded;
  \<^item> \<open>dies_with_shell\<close>: whether killing the shell ends every process that holds the
    pipes. \<^verbatim>\<open>process.kill()\<close> signals the shell alone; a command the shell has forked
    lives on and keeps the pipes open.
\<close>
record child =
  run_time :: "nat option"
  returncode :: int
  stdout :: string
  stderr :: string
  dies_with_shell :: bool

text \<open>\<^verbatim>\<open>subprocess.run(["which", name], ..., timeout=5)\<close>: it returns the exit status and
  the captured standard output, or raises.\<close>
datatype which_result = WhichExit int string | WhichRaises string

text \<open>What \<^verbatim>\<open>json.loads(response.read().decode())\<close> gives on a response body: an
  exception, a dict (with the text of its \<^verbatim>\<open>model\<close> entry when it has one), or another
  JSON value.\<close>
datatype body = BadBody string | JsonDict "string option" | JsonOther

text \<open>\<^verbatim>\<open>urllib.request.urlopen(url, timeout=2)\<close>: an exception with its message, or a
  response.\<close>
datatype http_result = HttpRaises string | HttpResponse body

text \<open>The values an argument bag can hold (JSON scalars; floats, arrays and objects are
  left out).\<close>
datatype pyval = PNone | PBool bool | PInt int | PStr string

text \<open>The places where the interpreter itself raises on a value it cannot use. The
  wording of these messages depends on the Python version, so the world supplies it.\<close>
datatype misuse =
    NoLower pyval
  | BadPath pyval
  | BadCmd pyval
  | BadTimeout pyval
  | BadJoin pyval
  | BadWhich pyval

record world =
  tools_dir :: string
  environ :: "string \<rightharpoonup> string"
  fs :: "string \<Rightarrow> string + node option"
  resolve :: "string \<Rightarrow> string + string"
  spawn :: "string \<Rightarrow> string option \<Rightarrow> (string \<rightharpoonup> string) \<Rightarrow> string + child"
  which :: "string \<Rightarrow> which_result"
  urlopen :: "string \<Rightarrow> http_result"
  message :: "misuse \<Rightarrow> string"
  lower_other :: "string \<Rightarrow> string"

text \<open>
  \<^item> \<open>tools_dir\<close> is \<^verbatim>\<open>str(TOOLS_DIR)\<close>, the directory \<^verbatim>\<open>tools\<close> under the user's home;
  \<^item> \<open>environ\<close> is \<^verbatim>\<open>os.environ\<close> when the module is loaded;
  \<^item> \<open>fs p\<close> is what \<^verbatim>\<open>stat\<close> gives for the path \<open>p\<close>: \<open>Inr None\<close> when nothing is there
    (or a component is not a directory), \<open>Inr (Some n)\<close> when it names \<open>n\<close>, and \<open>Inl\<close>
    the message of the \<^verbatim>\<open>OSError\<close> that \<^verbatim>\<open>Path.exists()\<close> lets through, such as
    \<^verbatim>\<open>PermissionError\<close> under a directory that may not be searched;
  \<^item> \<open>resolve s\<close> is \<^verbatim>\<open>Path(s).expanduser().resolve()\<close>: \<open>Inr\<close> the absolute path, or
    \<open>Inl\<close> the message of the exception (an unknown \<^verbatim>\<open>~user\<close>, a symlink loop, an
    embedded null byte);
  \<^item> \<open>spawn cmd cwd env\<close> is \<^verbatim>\<open>asyncio.create_subprocess_shell\<close>: \<open>Inr\<close> the child, or
    \<open>Inl\<close> the message of the exception;
  \<^item> \<open>lower_other s\<close> is \<^verbatim>\<open>s.lower()\<close> for a string with characters outside ASCII, as
    the interpreter's Unicode tables have it.
\<close>

text \<open>What the server does to the world, in order.\<close>
datatype event =
    EvExists string
  | EvAccess string
  | EvIsDir string
  | EvResolve string
  | EvSpawn string "string option" "string \<rightharpoonup> string"
  | EvKill
  | EvWait
  | EvWhich string
  | EvUrlopen string
  | EvSleep nat

text \<open>\<^verbatim>\<open>path.exists()\<close>, as in CPython 3.11: \<^verbatim>\<open>False\<close> when \<^verbatim>\<open>stat\<close> finds nothing, and
  any other \<^verbatim>\<open>OSError\<close> is raised.\<close>
definition exists_path :: "world \<Rightarrow> string \<Rightarrow> string + bool" where
  "exists_path w p =
     (case fs w p of
        Inl e \<Rightarrow> Inl e
      | Inr None \<Rightarrow> Inr False
      | Inr (Some n) \<Rightarrow> Inr True)"

text \<open>\<^verbatim>\<open>os.access(path, os.X_OK)\<close>: it answers \<^verbatim>\<open>False\<close> on every error.\<close>
definition access_x :: "world \<Rightarrow> string \<Rightarrow> bool" where
  "access_x w p = (case fs w p of Inr (Some n) \<Rightarrow> x_ok n | _ \<Rightarrow> False)"

text \<open>\<^verbatim>\<open>path.is_dir()\<close>, which raises as \<^verbatim>\<open>exists\<close> does.\<close>
definition is_dir :: "world \<Rightarrow> string \<Rightarrow> string + bool" where
  "is_dir w p =
     (case fs w p of
        Inl e \<Rightarrow> Inl e
      | Inr (Some (Directory x)) \<Rightarrow> Inr True
      | Inr _ \<Rightarrow> Inr False)"

section \<open>String methods\<close>

definition NL :: string where
  "NL = [CHR 0x0A]"

definition lower_char :: "char \<Rightarrow> char" where
  "lower_char c =
     (case map_of (zip ''ABCDEFGHIJKLMNOPQRSTUVWXYZ'' ''abcdefghijklmnopqrstuvwxyz'') c of
        None \<Rightarrow> c
      | Some l \<Rightarrow> l)"

definition is_ascii :: "char \<Rightarrow> bool" where
  "is_ascii c = ((of_char c :: nat) < 128)"

text \<open>\<^verbatim>\<open>s.lower()\<close>: by the table above when the string is ASCII, and by the interpreter's
  tables otherwise.\<close>
definition py_lower :: "world \<Rightarrow> string \<Rightarrow> string" where
  "py_lower w s = (if list_all is_ascii s then map lower_char s else lower_other w s)"

text \<open>
  A string cut into its code points: a byte of the form \<^verbatim>\<open>10xxxxxx\<close> continues the code
  point before it.
\<close>
definition is_cont :: "char \<Rightarrow> bool" where
  "is_cont c = (128 \<le> (of_char c :: nat) \<and> (of_char c :: nat) < 192)"

fun chunks :: "string \<Rightarrow> string list" where
  "chunks [] = []"
| "chunks (c # cs) =
     (case chunks cs of
        [] \<Rightarrow> [[c]]
      | k # ks \<Rightarrow> if is_cont (hd k) then (c # k) # ks else [c] # k # ks)"

text \<open>
  The code points \<^verbatim>\<open>str.isspace\<close> accepts, in UTF-8: U+0009 to U+000D, U+001C to U+0020,
  U+0085, U+00A0, U+1680, U+2000 to U+200A, U+2028, U+2029, U+202F, U+205F and U+3000.
\<close>
definition white_space :: "string list" where
  "white_space =
     [[CHR 0x09], [CHR 0x0A], [CHR 0x0B], [CHR 0x0C], [CHR 0x0D],
      [CHR 0x1C], [CHR 0x1D], [CHR 0x1E], [CHR 0x1F], [CHR 0x20],
      [CHR 0xC2, CHR 0x85], [CHR 0xC2, CHR 0xA0],
      [CHR 0xE1, CHR 0x9A, CHR 0x80],
      [CHR 0xE2, CHR 0x80, CHR 0x80], [CHR 0xE2, CHR 0x80, CHR 0x81],
      [CHR 0xE2, CHR 0x80, CHR 0x82], [CHR 0xE2, CHR 0x80, CHR 0x83],
      [CHR 0xE2, CHR 0x80, CHR 0x84], [CHR 0xE2, CHR 0x80, CHR 0x85],
      [CHR 0xE2, CHR 0x80, CHR 0x86], [CHR 0xE2, CHR 0x80, CHR 0x87],
      [CHR 0xE2, CHR 0x80, CHR 0x88], [CHR 0xE2, CHR 0x80, CHR 0x89],
      [CHR 0xE2, CHR 0x80, CHR 0x8A],
      [CHR 0xE2, CHR 0x80, CHR 0xA8], [CHR 0xE2, CHR 0x80, CHR 0xA9],
      [CHR 0xE2, CHR 0x80, CHR 0xAF], [CHR 0xE2, CHR 0x81, CHR 0x9F],
      [CHR 0xE3, CHR 0x80, CHR 0x80]]"

definition is_space :: "string \<Rightarrow> bool" where
  "is_space k = (k \<in> set white_space)"

text \<open>\<^verbatim>\<open>s.strip()\<close>\<close>
definition py_strip :: "string \<Rightarrow> string" where
  "py_strip s = concat (rev (dropWhile is_space (rev (dropWhile is_space (chunks s)))))"

text \<open>
  \<^verbatim>\<open>s.split()\<close>: the maximal runs of code points that are not white space, in order.
  \<open>cur\<close> is the run being read.
\<close>
fun split_ws :: "string \<Rightarrow> string list \<Rightarrow> string list" where
  "split_ws cur [] = (if cur = [] then [] else [cur])"
| "split_ws cur (k # ks) =
     (if is_space k then (if cur = [] then split_ws [] ks else cur # split_ws [] ks)
      else split_ws (cur @ k) ks)"

definition py_split :: "string \<Rightarrow> string list" where
  "py_split s = split_ws [] (chunks s)"

text \<open>\<^verbatim>\<open>s.replace(a, b)\<close> for single ASCII characters \<open>a\<close> and \<open>b\<close>.\<close>
definition py_replace :: "char \<Rightarrow> char \<Rightarrow> string \<Rightarrow> string" where
  "py_replace a b s = map (\<lambda>c. if c = a then b else c) s"

text \<open>\<^verbatim>\<open>needle in hay\<close> on strings: a contiguous occurrence.\<close>
definition py_in :: "string \<Rightarrow> string \<Rightarrow> bool" where
  "py_in needle hay = sublist needle hay"

text \<open>\<^verbatim>\<open>sep.join(xs)\<close>\<close>
fun py_join :: "string \<Rightarrow> string list \<Rightarrow> string" where
  "py_join sep [] = []"
| "py_join sep [x] = x"
| "py_join sep (x # y # ys) = x @ sep @ py_join sep (y # ys)"

section \<open>Paths\<close>

text \<open>
  A path is the string \<^verbatim>\<open>str(path)\<close> gives. pathlib keeps of a string its root (two
  leading separators exactly stay two, any other number is one) and its components,
  without the empty ones and the ones that are a single dot.
\<close>
fun split_on :: "char \<Rightarrow> string \<Rightarrow> string \<Rightarrow> string list" where
  "split_on sep cur [] = [rev cur]"
| "split_on sep cur (c # cs) =
     (if c = sep then rev cur # split_on sep [] cs else split_on sep (c # cur) cs)"

definition components :: "string \<Rightarrow> string list" where
  "components s = filter (\<lambda>x. x \<noteq> [] \<and> x \<noteq> ''.'') (split_on (CHR ''/'') [] s)"

definition root_of :: "string \<Rightarrow> string" where
  "root_of s =
     (if take 2 s = ''//'' \<and> take 3 s \<noteq> ''///'' then ''//''
      else if take 1 s = ''/'' then ''/''
      else [])"

text \<open>
  pathlib's \<^verbatim>\<open>/\<close>, for a left operand that is the string of a path already: an absolute
  right operand replaces it, and a right operand without components leaves it as it is.
\<close>
definition pjoin :: "string \<Rightarrow> string \<Rightarrow> string" where
  "pjoin p c =
     (if root_of c \<noteq> [] then root_of c @ py_join ''/'' (components c)
      else if components c = [] then p
      else if p = ''.'' then py_join ''/'' (components c)
      else if last p = CHR ''/'' then p @ py_join ''/'' (components c)
      else p @ ''/'' @ py_join ''/'' (components c))"

text \<open>\<^verbatim>\<open>str(Path(s))\<close>\<close>
definition as_path :: "string \<Rightarrow> string" where
  "as_path s = pjoin ''.'' s"

section \<open>The tool registry and the resolver\<close>

record tool_config =
  dir :: string
  command :: string
  description :: string

text \<open>The dict \<^verbatim>\<open>find_tool_executable\<close> returns.\<close>
record tool_info =
  info_command :: string
  cwd :: string
  info_description :: string

text \<open>\<^verbatim>\<open>tool_configs\<close>, in the order of the source; the keys are distinct.\<close>
definition tool_configs :: "world \<Rightarrow> (string \<times> tool_config) list" where
  "tool_configs w =
     [(''slither'',
        \<lparr>dir = pjoin (tools_dir w) ''slither'', command = ''python3 slither/slither.py'',
         description = ''Slither static analyzer''\<rparr>),
      (''mythril'',
        \<lparr>dir = pjoin (tools_dir w) ''mythril2.0'', command = ''python3 mythril/mythril'',
         description = ''Mythril security analyzer''\<rparr>),
      (''echidna'',
        \<lparr>dir = pjoin (tools_dir w) ''echidna'', command = ''echidna-test'',
         description = ''Echidna fuzzing tool''\<rparr>),
      (''securify2'',
        \<lparr>dir = pjoin (tools_dir w) ''securify2'', command = ''python3 -m securify'',
         description = ''Securify2 static analyzer''\<rparr>),
      (''securify'',
        \<lparr>dir = pjoin (tools_dir w) ''securify2'', command = ''python3 -m securify'',
         description = ''Securify2 static analyzer''\<rparr>),
      (''medusa'',
        \<lparr>dir = pjoin (tools_dir w) ''medusa'', command = ''python3 -m medusa'',
         description = ''Medusa fuzzing tool''\<rparr>),
      (''fuzz-utils'',
        \<lparr>dir = pjoin (tools_dir w) ''fuzz-utils'', command = ''python3 -m fuzz_utils'',
         description = ''Fuzz utilities''\<rparr>),
      (''solc-select'',
        \<lparr>dir = pjoin (tools_dir w) ''solc-select'', command = ''solc-select'',
         description = ''Solidity compiler version selector''\<rparr>)]"

text \<open>
  The check of lines 104 to 114: the token after \<^verbatim>\<open>python3\<close> in the template, with
  every dot turned into a separator, joined to the tool's directory. The answer comes with
  the probes made (the second only when the first finds nothing); a probe that raises
  ends the check.
\<close>
definition module_path :: "tool_config \<Rightarrow> string option" where
  "module_path config =
     (if py_in ''python3'' (command config) then
        (case tl (py_split (command config)) of
           [] \<Rightarrow> None
         | part # _ \<Rightarrow> Some (pjoin (dir config) (py_replace (CHR ''.'') (CHR ''/'') part)))
      else None)"

definition module_check :: "world \<Rightarrow> tool_config \<Rightarrow> (string + bool) \<times> event list" where
  "module_check w config =
     (case module_path config of
        None \<Rightarrow> (Inr False, [])
      | Some mp \<Rightarrow>
          (case exists_path w mp of
             Inl e \<Rightarrow> (Inl e, [EvExists mp])
           | Inr there \<Rightarrow>
               if there then (Inr True, [EvExists mp])
               else (exists_path w (pjoin mp ''__init__.py''),
                     [EvExists mp, EvExists (pjoin mp ''__init__.py'')])))"

text \<open>The loop of lines 117 to 123: the first candidate that exists and is marked
  executable.\<close>
fun first_executable ::
  "world \<Rightarrow> string list \<Rightarrow> (string + string option) \<times> event list"
where
  "first_executable w [] = (Inr None, [])"
| "first_executable w (p # ps) =
     (case exists_path w p of
        Inl e \<Rightarrow> (Inl e, [EvExists p])
      | Inr there \<Rightarrow>
          if there then
            (if access_x w p then (Inr (Some p), [EvExists p, EvAccess p])
             else (fst (first_executable w ps),
                   [EvExists p, EvAccess p] @ snd (first_executable w ps)))
          else (fst (first_executable w ps), EvExists p # snd (first_executable w ps)))"

definition possible_paths :: "world \<Rightarrow> tool_config \<Rightarrow> string \<Rightarrow> string list" where
  "possible_paths w config tool_name =
     [pjoin (dir config) tool_name,
      pjoin (dir config) (py_lower w tool_name),
      pjoin (pjoin (dir config) ''bin'') tool_name,
      pjoin (pjoin (dir config) ''bin'') (py_lower w tool_name)]"

definition template_info :: "tool_config \<Rightarrow> tool_info" where
  "template_info config =
     \<lparr>info_command = command config, cwd = dir config, info_description = description config\<rparr>"

text \<open>The function has no handler of its own: an exception of a probe leaves it
  (\<open>Inl\<close>).\<close>
definition find_tool_executable ::
  "world \<Rightarrow> string \<Rightarrow> (string + tool_info option) \<times> event list"
where
  "find_tool_executable w tool_name =
     (case map_of (tool_configs w) (py_lower w tool_name) of
        None \<Rightarrow> (Inr None, [])
      | Some config \<Rightarrow>
          (case exists_path w (dir config) of
             Inl e \<Rightarrow> (Inl e, [EvExists (dir config)])
           | Inr there \<Rightarrow>
               if \<not> there then (Inr None, [EvExists (dir config)])
               else
                 (case module_check w config of
                    (Inl e, t1) \<Rightarrow> (Inl e, EvExists (dir config) # t1)
                  | (Inr found, t1) \<Rightarrow>
                      if found then (Inr (Some (template_info config)), EvExists (dir config) # t1)
                      else
                        (case first_executable w (possible_paths w config tool_name) of
                           (Inl e, t2) \<Rightarrow> (Inl e, EvExists (dir config) # t1 @ t2)
                         | (Inr (Some p), t2) \<Rightarrow>
                             (Inr (Some \<lparr>info_command = p, cwd = dir config,
                                        info_description = description config\<rparr>),
                              EvExists (dir config) # t1 @ t2)
                         | (Inr None, t2) \<Rightarrow>
                             (Inr (Some (template_info config)),
                              EvExists (dir config) # t1 @ t2)))))"

section \<open>Argument bags and the values in them\<close>

text \<open>\<^verbatim>\<open>arguments.get(key, default)\<close>\<close>
definition arg_get :: "(string \<rightharpoonup> pyval) \<Rightarrow> string \<Rightarrow> pyval \<Rightarrow> pyval" where
  "arg_get arguments k d = (case arguments k of None \<Rightarrow> d | Some v \<Rightarrow> v)"

text \<open>\<^verbatim>\<open>env.get(key, default)\<close>\<close>
definition env_get :: "(string \<rightharpoonup> string) \<Rightarrow> string \<Rightarrow> string \<Rightarrow> string" where
  "env_get env k d = (case env k of None \<Rightarrow> d | Some v \<Rightarrow> v)"

text \<open>The truth value of a value, as \<^verbatim>\<open>if v\<close> and \<^verbatim>\<open>not v\<close> take it.\<close>
fun truthy :: "pyval \<Rightarrow> bool" where
  "truthy PNone = False"
| "truthy (PBool b) = b"
| "truthy (PInt n) = (n \<noteq> 0)"
| "truthy (PStr s) = (s \<noteq> [])"

function str_nat :: "nat \<Rightarrow> string" where
  "str_nat n =
     (if n < 10 then [''0123456789'' ! n] else str_nat (n div 10) @ [''0123456789'' ! (n mod 10)])"
  by pat_completeness auto
termination
  by (relation "measure id") auto

declare str_nat.simps [simp del]

definition str_int :: "int \<Rightarrow> string" where
  "str_int i = (if i < 0 then ''-'' @ str_nat (nat (- i)) else str_nat (nat i))"

text \<open>\<^verbatim>\<open>str(v)\<close>, which is also what an f-string puts for \<^verbatim>\<open>{v}\<close>.\<close>
fun py_str :: "pyval \<Rightarrow> string" where
  "py_str PNone = ''None''"
| "py_str (PBool b) = (if b then ''True'' else ''False'')"
| "py_str (PInt n) = str_int n"
| "py_str (PStr s) = s"

section \<open>The environment of the children\<close>

definition web3se_lab_dir :: "world \<Rightarrow> string" where
  "web3se_lab_dir w = pjoin (tools_dir w) ''web3se-lab''"

text \<open>Lines 25 to 29, run once when the module is loaded.\<close>
definition DEFAULT_ENV :: "world \<Rightarrow> (string \<rightharpoonup> string)" where
  "DEFAULT_ENV w =
     (environ w)
       (''PATH'' \<mapsto>
          tools_dir w @ '':'' @ web3se_lab_dir w @ '':'' @ env_get (environ w) ''PATH'' [],
        ''SMARTBERT_API'' \<mapsto> env_get (environ w) ''SMARTBERT_API'' ''http://localhost:9900'',
        ''WEB3_SEKIT_API'' \<mapsto> env_get (environ w) ''WEB3_SEKIT_API'' ''http://localhost:8081'')"

text \<open>Lines 282 to 286 (and 440 to 444): a copy of the dict given, with the tools
  directory put in front of \<^verbatim>\<open>PATH\<close> unless it occurs there already.\<close>
definition prepare_env :: "string \<Rightarrow> (string \<rightharpoonup> string) \<Rightarrow> (string \<rightharpoonup> string)" where
  "prepare_env tools_path env =
     (let current_path = env_get env ''PATH'' [] in
      if \<not> py_in tools_path current_path
      then env(''PATH'' \<mapsto> tools_path @ '':'' @ current_path)
      else env)"

section \<open>Running a child\<close>

text \<open>What a call of the handler comes to: the texts of the \<^verbatim>\<open>TextContent\<close> list it
  returns, an exception that leaves it, or no return at all.\<close>
datatype outcome = Returned "string list" | Raised string | NoReturn

text \<open>\<^verbatim>\<open>Path(v).expanduser().resolve()\<close>: \<^verbatim>\<open>Path\<close> raises on anything but a string.\<close>
definition path_resolve :: "world \<Rightarrow> pyval \<Rightarrow> (string + string) \<times> event list" where
  "path_resolve w v =
     (case v of
        PStr s \<Rightarrow> (resolve w s, [EvResolve s])
      | _ \<Rightarrow> (Inl (message w (BadPath v)), []))"

text \<open>\<^verbatim>\<open>asyncio.create_subprocess_shell(cmd, ..., cwd=cwd, env=env)\<close>: it raises on a
  command that is not a string, before anything is started.\<close>
definition shell ::
  "world \<Rightarrow> pyval \<Rightarrow> string option \<Rightarrow> (string \<rightharpoonup> string) \<Rightarrow> (string + child) \<times> event list"
where
  "shell w cmd dir_opt env =
     (case cmd of
        PStr c \<Rightarrow> (spawn w c dir_opt env, [EvSpawn c dir_opt env])
      | _ \<Rightarrow> (Inl (message w (BadCmd cmd)), []))"

datatype waited = Done | TimedOut | Forever | WaitRaises string

text \<open>A child finishes in time when its run time, in seconds, is below the bound; a
  bound of zero or less always times out.\<close>
definition within :: "int \<Rightarrow> child \<Rightarrow> waited" where
  "within t c =
     (case run_time c of
        None \<Rightarrow> TimedOut
      | Some d \<Rightarrow> if int d < t then Done else TimedOut)"

text \<open>The least integer that no float holds: \<^verbatim>\<open>loop.call_later\<close> adds the bound to the
  clock, a float, and from here on the conversion raises \<^verbatim>\<open>OverflowError\<close>.\<close>
definition float_limit :: int where
  "float_limit = 2 ^ 1024 - 2 ^ 970"

text \<open>
  \<^verbatim>\<open>asyncio.wait_for(process.communicate(), timeout=tv)\<close>, as in CPython 3.11: no bound
  when \<open>tv\<close> is \<^verbatim>\<open>None\<close>; a bool counts as 0 or 1; a bound of zero or less times out at
  once; a larger integer must fit a float; a string cannot be compared with a number.
\<close>
definition wait_for :: "world \<Rightarrow> pyval \<Rightarrow> child \<Rightarrow> waited" where
  "wait_for w tv c =
     (case tv of
        PNone \<Rightarrow> (case run_time c of None \<Rightarrow> Forever | Some _ \<Rightarrow> Done)
      | PBool b \<Rightarrow> within (if b then 1 else 0) c
      | PInt t \<Rightarrow>
          if float_limit \<le> t then WaitRaises (message w (BadTimeout tv)) else within t c
      | PStr s \<Rightarrow> WaitRaises (message w (BadTimeout tv)))"

text \<open>
  \<^verbatim>\<open>process.kill()\<close> followed by \<^verbatim>\<open>await process.wait()\<close>: the wait is over when the shell
  has exited and the pipes are closed. That comes about when the command ends by itself
  or dies with the shell; a command that does neither keeps the handler waiting.
\<close>
definition reaped :: "child \<Rightarrow> bool" where
  "reaped c = (run_time c \<noteq> None \<or> dies_with_shell c)"

definition rule50 :: string where
  "rule50 = replicate 50 (CHR ''='')"

text \<open>The two sections of lines 320 to 324 (the same at 480 to 484 and 558 to 562).\<close>
definition streams :: "child \<Rightarrow> string" where
  "streams p =
     (if stdout p \<noteq> [] then ''STDOUT:'' @ NL @ stdout p @ NL else [])
     @ (if stderr p \<noteq> [] then ''STDERR:'' @ NL @ stderr p @ NL else [])"

section \<open>The operations\<close>

subsection \<open>\<^verbatim>\<open>execute_command\<close>\<close>

definition execute_command :: "world \<Rightarrow> (string \<rightharpoonup> pyval) \<Rightarrow> outcome \<times> event list" where
  "execute_command w arguments =
     (let command = arg_get arguments ''command'' (PStr []);
          working_dir = arg_get arguments ''working_directory'' (PStr ''.'');
          timeout = arg_get arguments ''timeout'' (PInt 300);
          failed = (\<lambda>e. Returned [''Error executing command: '' @ e @ NL
                                   @ ''Command: '' @ py_str command])
      in
      if \<not> truthy command then (Returned [''Error: No command provided''], [])
      else
        (case path_resolve w working_dir of
           (Inl e, t0) \<Rightarrow> (failed e, t0)
         | (Inr work_dir, t0) \<Rightarrow>
             (case exists_path w work_dir of
                Inl e \<Rightarrow> (failed e, t0 @ [EvExists work_dir])
              | Inr there \<Rightarrow>
                  if \<not> there
                  then (Returned [''Error: Working directory does not exist: '' @ work_dir],
                        t0 @ [EvExists work_dir])
                  else
                    (case shell w command (Some work_dir)
                            (prepare_env (tools_dir w) (DEFAULT_ENV w)) of
                       (Inl e, t1) \<Rightarrow> (failed e, t0 @ [EvExists work_dir] @ t1)
                     | (Inr process, t1) \<Rightarrow>
                         (case wait_for w timeout process of
                            WaitRaises e \<Rightarrow> (failed e, t0 @ [EvExists work_dir] @ t1)
                          | Forever \<Rightarrow> (NoReturn, t0 @ [EvExists work_dir] @ t1)
                          | TimedOut \<Rightarrow>
                              (if reaped process
                               then Returned [''Error: Command timed out after ''
                                              @ py_str timeout @ '' seconds'' @ NL
                                              @ ''Command: '' @ py_str command]
                               else NoReturn,
                               t0 @ [EvExists work_dir] @ t1 @ [EvKill, EvWait])
                          | Done \<Rightarrow>
                              (Returned [''Command: '' @ py_str command @ NL
                                         @ ''Working Directory: '' @ work_dir @ NL
                                         @ ''Exit Code: '' @ str_int (returncode process) @ NL
                                         @ rule50 @ NL @ streams process],
                               t0 @ [EvExists work_dir] @ t1))))))"

subsection \<open>\<^verbatim>\<open>run_security_tool\<close>\<close>

text \<open>Lines 416 to 428: the lookup, tried again under the name \<^verbatim>\<open>securify2\<close> when the
  name \<^verbatim>\<open>securify\<close> gave nothing.\<close>
definition find_with_alias ::
  "world \<Rightarrow> string \<Rightarrow> (string + tool_info option) \<times> event list"
where
  "find_with_alias w tool_name =
     (case find_tool_executable w tool_name of
        (Inl e, t) \<Rightarrow> (Inl e, t)
      | (Inr (Some info), t) \<Rightarrow> (Inr (Some info), t)
      | (Inr None, t) \<Rightarrow>
          if tool_name = ''securify''
          then (fst (find_tool_executable w ''securify2''),
                t @ snd (find_tool_executable w ''securify2''))
          else (Inr None, t))"

text \<open>Lines 430 to 494, once the tool is found.\<close>
definition run_found ::
  "world \<Rightarrow> string \<Rightarrow> pyval \<Rightarrow> pyval \<Rightarrow> pyval \<Rightarrow> tool_info \<Rightarrow> outcome \<times> event list"
where
  "run_found w tool_name tool_args working_dir timeout info =
     (let failed = (\<lambda>e. Returned [''Error running security tool: '' @ e @ NL
                                   @ ''Tool: '' @ tool_name @ NL
                                   @ ''Arguments: '' @ py_str tool_args]);
          full_command = py_strip (info_command info @ '' '' @ py_str tool_args)
      in
      (case path_resolve w working_dir of
         (Inl e, t0) \<Rightarrow> (failed e, t0)
       | (Inr work_dir, t0) \<Rightarrow>
           (case path_resolve w (PStr (cwd info)) of
              (Inl e, t1) \<Rightarrow> (failed e, t0 @ t1)
            | (Inr tool_cwd, t1) \<Rightarrow>
                (case exists_path w tool_cwd of
                   Inl e \<Rightarrow> (failed e, t0 @ t1 @ [EvExists tool_cwd])
                 | Inr there \<Rightarrow>
                     (let exec_cwd = (if there then tool_cwd else work_dir);
                          t2 = t0 @ t1 @ [EvExists tool_cwd]
                      in
                      (case shell w (PStr full_command) (Some exec_cwd)
                              (prepare_env (tools_dir w) (DEFAULT_ENV w)) of
                         (Inl e, t3) \<Rightarrow> (failed e, t2 @ t3)
                       | (Inr process, t3) \<Rightarrow>
                           (case wait_for w timeout process of
                              WaitRaises e \<Rightarrow> (failed e, t2 @ t3)
                            | Forever \<Rightarrow> (NoReturn, t2 @ t3)
                            | TimedOut \<Rightarrow>
                                (if reaped process
                                 then Returned [''Error: Tool execution timed out after ''
                                                @ py_str timeout @ '' seconds'' @ NL
                                                @ ''Tool: '' @ tool_name @ NL
                                                @ ''Command: '' @ full_command]
                                 else NoReturn,
                                 t2 @ t3 @ [EvKill, EvWait])
                            | Done \<Rightarrow>
                                (Returned [''Security Tool Execution: '' @ tool_name @ NL
                                           @ ''Command: '' @ full_command @ NL
                                           @ ''Working Directory: '' @ exec_cwd @ NL
                                           @ ''Exit Code: '' @ str_int (returncode process)
                                           @ NL @ rule50 @ NL @ streams process],
                                 t2 @ t3))))))))"

text \<open>The tool name is lowered before the \<^verbatim>\<open>try\<close> of the branch, and the lookup is made
  before it too: an exception of either leaves the handler.\<close>
definition run_security_tool :: "world \<Rightarrow> (string \<rightharpoonup> pyval) \<Rightarrow> outcome \<times> event list" where
  "run_security_tool w arguments =
     (case arg_get arguments ''tool_name'' (PStr []) of
        PStr s \<Rightarrow>
          (let tool_name = py_lower w s;
               tool_args = arg_get arguments ''arguments'' (PStr []);
               working_dir = arg_get arguments ''working_directory'' (PStr ''.'');
               timeout = arg_get arguments ''timeout'' (PInt 300)
           in
           if tool_name = [] then
             (Returned [''Error: No tool name provided. Supported tools: slither, mythril, ''
                        @ ''echidna, securify2, medusa, fuzz-utils, solc-select''], [])
           else
             (case find_with_alias w tool_name of
                (Inl e, t) \<Rightarrow> (Raised e, t)
              | (Inr None, t) \<Rightarrow>
                  (Returned [''Error: Tool '' @ [CHR 0x27] @ tool_name @ [CHR 0x27]
                             @ '' not found.'' @ NL
                             @ ''Supported tools: slither, mythril, echidna, securify2, ''
                             @ ''medusa, fuzz-utils, solc-select'' @ NL
                             @ ''Use '' @ [CHR 0x27] @ ''check_tool_available'' @ [CHR 0x27]
                             @ '' to find how to run a specific tool.''], t)
              | (Inr (Some info), t) \<Rightarrow>
                  (fst (run_found w tool_name tool_args working_dir timeout info),
                   t @ snd (run_found w tool_name tool_args working_dir timeout info))))
      | v \<Rightarrow> (Raised (message w (NoLower v)), []))"

subsection \<open>\<^verbatim>\<open>check_web3se_status\<close>\<close>

text \<open>The two marks of the status lines, U+2705 and U+274C, in UTF-8.\<close>
definition CHECK :: string where
  "CHECK = [CHR 0xE2, CHR 0x9C, CHR 0x85]"

definition CROSS :: string where
  "CROSS = [CHR 0xE2, CHR 0x9D, CHR 0x8C]"

definition smartbert_url :: "world \<Rightarrow> string" where
  "smartbert_url w = env_get (DEFAULT_ENV w) ''SMARTBERT_API'' ''http://localhost:9900''"

definition web3sekit_url :: "world \<Rightarrow> string" where
  "web3sekit_url w = env_get (DEFAULT_ENV w) ''WEB3_SEKIT_API'' ''http://localhost:8081''"

definition web3_scanner :: "world \<Rightarrow> string" where
  "web3_scanner w = pjoin (web3se_lab_dir w) ''web3-scanner''"

definition smartbert_down :: "world \<Rightarrow> string \<Rightarrow> string list" where
  "smartbert_down w e =
     [CROSS @ '' SmartBERT API: Not running at '' @ smartbert_url w, ''   Error: '' @ e]"

text \<open>Lines 626 to 634, with their own handler: the mark of success is appended only
  after the body has been read and parsed.\<close>
definition smartbert_status :: "world \<Rightarrow> string list" where
  "smartbert_status w =
     (case urlopen w (smartbert_url w) of
        HttpRaises e \<Rightarrow> smartbert_down w e
      | HttpResponse (BadBody e) \<Rightarrow> smartbert_down w e
      | HttpResponse (JsonDict m) \<Rightarrow>
          [CHECK @ '' SmartBERT API: Running at '' @ smartbert_url w,
           ''   Model: '' @ (case m of None \<Rightarrow> ''unknown'' | Some t \<Rightarrow> t)]
      | HttpResponse JsonOther \<Rightarrow> [CHECK @ '' SmartBERT API: Running at '' @ smartbert_url w])"

text \<open>Lines 638 to 642, with their own handler.\<close>
definition web3sekit_status :: "world \<Rightarrow> string list" where
  "web3sekit_status w =
     (case urlopen w (web3sekit_url w) of
        HttpRaises e \<Rightarrow> [CROSS @ '' web3-sekit API: Not running at '' @ web3sekit_url w]
      | HttpResponse b \<Rightarrow> [CHECK @ '' web3-sekit API: Running at '' @ web3sekit_url w])"

text \<open>Lines 645 to 649, which have no handler of their own.\<close>
definition scanner_status :: "world \<Rightarrow> string + string list" where
  "scanner_status w =
     (case exists_path w (web3_scanner w) of
        Inl e \<Rightarrow> Inl e
      | Inr there \<Rightarrow>
          if there then Inr [CHECK @ '' web3-scanner CLI: Available at '' @ web3_scanner w]
          else Inr [CROSS @ '' web3-scanner CLI: Not found at '' @ web3_scanner w])"

text \<open>An exception of the last check falls to the handler of the whole branch (lines 656
  to 660), which returns its message alone.\<close>
definition check_web3se_status :: "world \<Rightarrow> outcome \<times> event list" where
  "check_web3se_status w =
     (case scanner_status w of
        Inl e \<Rightarrow> Returned [''Error checking web3se-lab status: '' @ e]
      | Inr scanner \<Rightarrow>
          Returned [''web3se-lab Service Status:'' @ NL
                    @ py_join NL (smartbert_status w @ web3sekit_status w @ scanner)],
      [EvUrlopen (smartbert_url w), EvUrlopen (web3sekit_url w), EvExists (web3_scanner w)])"

subsection \<open>\<^verbatim>\<open>web3_scanner_scan\<close>\<close>

definition is_str :: "pyval \<Rightarrow> bool" where
  "is_str v = (case v of PStr s \<Rightarrow> True | _ \<Rightarrow> False)"

text \<open>\<^verbatim>\<open>" ".join(cmd_parts)\<close>: it raises at the first item that is not a string.\<close>
definition join_parts :: "world \<Rightarrow> pyval list \<Rightarrow> string + string" where
  "join_parts w parts =
     (case find (\<lambda>v. \<not> is_str v) parts of
        Some v \<Rightarrow> Inl (message w (BadJoin v))
      | None \<Rightarrow> Inr (py_join '' '' (map py_str parts)))"

definition cmd_parts :: "world \<Rightarrow> pyval \<Rightarrow> pyval \<Rightarrow> pyval \<Rightarrow> pyval \<Rightarrow> pyval list" where
  "cmd_parts w repo_path with_intent with_embed output_file =
     [PStr (web3_scanner w), PStr ''scan'', repo_path]
     @ (if truthy with_intent then [PStr ''--intent''] else [])
     @ (if truthy with_embed then [PStr ''--embed''] else [])
     @ (if truthy output_file then [PStr ''--output'', output_file] else [])"

text \<open>Lines 564 and 565: the note on the saved results, after a scan that has ended. The
  file is looked for only when one was named.\<close>
definition saved_note :: "world \<Rightarrow> pyval \<Rightarrow> (string + string) \<times> event list" where
  "saved_note w output_file =
     (if truthy output_file then
        (case exists_path w (as_path (py_str output_file)) of
           Inl e \<Rightarrow> Inl e
         | Inr there \<Rightarrow>
             if there
             then Inr (NL @ CHECK @ '' Results saved to: '' @ py_str output_file @ NL)
             else Inr [],
         [EvExists (as_path (py_str output_file))])
      else (Inr [], []))"

definition web3_scanner_scan :: "world \<Rightarrow> (string \<rightharpoonup> pyval) \<Rightarrow> outcome \<times> event list" where
  "web3_scanner_scan w arguments =
     (let repo_path = arg_get arguments ''repository_path'' (PStr []);
          with_intent = arg_get arguments ''with_intent'' (PBool True);
          with_embed = arg_get arguments ''with_embed'' (PBool True);
          output_file = arg_get arguments ''output_file'' (PStr []);
          failed = (\<lambda>e. Returned [''Error running web3-scanner: '' @ e @ NL
                                   @ ''Repository: '' @ py_str repo_path]);
          t0 = [EvExists (web3_scanner w)]
      in
      if \<not> truthy repo_path then (Returned [''Error: No repository path provided''], [])
      else
        (case exists_path w (web3_scanner w) of
           Inl e \<Rightarrow> (failed e, t0)
         | Inr there \<Rightarrow>
             if \<not> there
             then (Returned [''Error: web3-scanner not found at '' @ web3_scanner w], t0)
             else
               (case join_parts w (cmd_parts w repo_path with_intent with_embed output_file) of
                  Inl e \<Rightarrow> (failed e, t0)
                | Inr line \<Rightarrow>
                    (case shell w (PStr line) (Some (web3se_lab_dir w)) (DEFAULT_ENV w) of
                       (Inl e, t1) \<Rightarrow> (failed e, t0 @ t1)
                     | (Inr process, t1) \<Rightarrow>
                         (case wait_for w (PInt 600) process of
                            WaitRaises e \<Rightarrow> (failed e, t0 @ t1)
                          | Forever \<Rightarrow> (NoReturn, t0 @ t1)
                          | TimedOut \<Rightarrow>
                              (if reaped process
                               then Returned [''Error: Scan timed out after 10 minutes'' @ NL
                                              @ ''Command: '' @ line]
                               else NoReturn,
                               t0 @ t1 @ [EvKill, EvWait])
                          | Done \<Rightarrow>
                              (case saved_note w output_file of
                                 (Inl e, t2) \<Rightarrow> (failed e, t0 @ t1 @ t2)
                               | (Inr note, t2) \<Rightarrow>
                                   (Returned [''Web3 Scanner Results:'' @ NL
                                              @ ''Repository: '' @ py_str repo_path @ NL
                                              @ ''Exit Code: '' @ str_int (returncode process)
                                              @ NL @ rule50 @ NL @ streams process @ note],
                                    t0 @ t1 @ t2)))))))"

subsection \<open>\<^verbatim>\<open>start_web3se_services\<close>\<close>

definition start_web3se_services ::
  "world \<Rightarrow> (string \<rightharpoonup> pyval) \<Rightarrow> outcome \<times> event list"
where
  "start_web3se_services w arguments =
     (let background = arg_get arguments ''background'' (PBool False);
          t0 = [EvExists (web3_scanner w)]
      in
      (case exists_path w (web3_scanner w) of
         Inl e \<Rightarrow> (Returned [''Error starting services: '' @ e], t0)
       | Inr there \<Rightarrow>
           if \<not> there
           then (Returned [''Error: web3-scanner not found at '' @ web3_scanner w], t0)
           else if truthy background then
             (case shell w (PStr (''cd '' @ web3se_lab_dir w @ '' && nohup '' @ web3_scanner w
                                  @ '' start > /dev/null 2>&1 &'')) None (DEFAULT_ENV w) of
                (Inl e, t1) \<Rightarrow> (Returned [''Error starting services: '' @ e], t0 @ t1)
              | (Inr process, t1) \<Rightarrow>
                  (case run_time process of
                     None \<Rightarrow> (NoReturn, t0 @ t1 @ [EvWait])
                   | Some d \<Rightarrow>
                       (fst (check_web3se_status w),
                        t0 @ t1 @ [EvWait, EvSleep 5] @ snd (check_web3se_status w))))
           else
             (Returned [''To start web3se-lab services, run:'' @ NL
                        @ ''cd '' @ web3se_lab_dir w @ '' && ./web3-scanner start'' @ NL @ NL
                        @ ''Or use: bash-server.execute_command with command: ''
                        @ [CHR 0x27] @ ''cd '' @ web3se_lab_dir w
                        @ '' && ./web3-scanner start'' @ [CHR 0x27] @ NL @ NL
                        @ ''Services will run on:'' @ NL
                        @ ''- SmartBERT API: http://localhost:9900'' @ NL
                        @ ''- web3-sekit API: http://localhost:8081''], t0)))"

subsection \<open>\<^verbatim>\<open>check_tool_available\<close>\<close>

text \<open>The loops of lines 381 to 389: the directories in turn, and in each one that is a
  directory the two places an executable may be.\<close>
fun scan_tool_dirs ::
  "world \<Rightarrow> string \<Rightarrow> string list \<Rightarrow> (string + string option) \<times> event list"
where
  "scan_tool_dirs w tool_name [] = (Inr None, [])"
| "scan_tool_dirs w tool_name (d # ds) =
     (case exists_path w d of
        Inl e \<Rightarrow> (Inl e, [EvExists d])
      | Inr there \<Rightarrow>
          if \<not> there
          then (fst (scan_tool_dirs w tool_name ds), EvExists d # snd (scan_tool_dirs w tool_name ds))
          else
            (case is_dir w d of
               Inl e \<Rightarrow> (Inl e, [EvExists d, EvIsDir d])
             | Inr directory \<Rightarrow>
                 if \<not> directory
                 then (fst (scan_tool_dirs w tool_name ds),
                       [EvExists d, EvIsDir d] @ snd (scan_tool_dirs w tool_name ds))
                 else
                   (case first_executable w
                           [pjoin d tool_name, pjoin (pjoin d ''bin'') tool_name] of
                      (Inl e, t) \<Rightarrow> (Inl e, [EvExists d, EvIsDir d] @ t)
                    | (Inr (Some p), t) \<Rightarrow> (Inr (Some p), [EvExists d, EvIsDir d] @ t)
                    | (Inr None, t) \<Rightarrow>
                        (fst (scan_tool_dirs w tool_name ds),
                         [EvExists d, EvIsDir d] @ t @ snd (scan_tool_dirs w tool_name ds)))))"

definition tool_dirs :: "world \<Rightarrow> string \<Rightarrow> string list" where
  "tool_dirs w tool_name =
     [pjoin (tools_dir w) tool_name,
      pjoin (pjoin (tools_dir w) tool_name) tool_name,
      pjoin (pjoin (tools_dir w) (tool_name @ ''2.0'')) tool_name,
      pjoin (web3se_lab_dir w) tool_name]"

text \<open>Lines 360 to 395, when \<^verbatim>\<open>which\<close> has found nothing; every exception in them falls
  to the handler of the branch.\<close>
definition look_in_tools :: "world \<Rightarrow> string \<Rightarrow> outcome \<times> event list" where
  "look_in_tools w tool_name =
     (case find_tool_executable w tool_name of
        (Inl e, t) \<Rightarrow> (Returned [''Error checking tool: '' @ e], t)
      | (Inr (Some info), t) \<Rightarrow>
          (Returned [''Tool '' @ [CHR 0x27] @ tool_name @ [CHR 0x27]
                     @ '' found:'' @ NL
                     @ ''  '' @ info_description info @ NL
                     @ ''  Command: '' @ info_command info @ NL
                     @ ''  Directory: '' @ cwd info @ NL
                     @ NL @ ''Usage example:'' @ NL
                     @ ''  cd '' @ cwd info @ '' && '' @ info_command info
                     @ '' <args>''], t)
      | (Inr None, t) \<Rightarrow>
          (case scan_tool_dirs w tool_name (tool_dirs w tool_name) of
             (Inl e, t') \<Rightarrow> (Returned [''Error checking tool: '' @ e], t @ t')
           | (Inr (Some p), t') \<Rightarrow>
               (Returned [''Tool '' @ [CHR 0x27] @ tool_name @ [CHR 0x27]
                          @ '' found in ~/tools at: '' @ p], t @ t')
           | (Inr None, t') \<Rightarrow>
               (Returned [''Tool '' @ [CHR 0x27] @ tool_name @ [CHR 0x27]
                          @ '' not found in PATH or ~/tools.'' @ NL
                          @ ''Available tools in ~/tools: echidna, fuzz-utils, ''
                          @ ''medusa, mythril2.0, securify2, slither, solc-select''],
                t @ t')))"

definition check_tool_available :: "world \<Rightarrow> (string \<rightharpoonup> pyval) \<Rightarrow> outcome \<times> event list" where
  "check_tool_available w arguments =
     (let v = arg_get arguments ''tool_name'' (PStr []) in
      if \<not> truthy v then (Returned [''Error: No tool name provided''], [])
      else
        (case v of
           PStr tool_name \<Rightarrow>
             (case which w tool_name of
                WhichRaises e \<Rightarrow> (Returned [''Error checking tool: '' @ e], [EvWhich tool_name])
              | WhichExit rc out \<Rightarrow>
                  if rc = 0 then
                    (Returned [''Tool '' @ [CHR 0x27] @ tool_name @ [CHR 0x27]
                               @ '' is available at: '' @ py_strip out], [EvWhich tool_name])
                  else
                    (fst (look_in_tools w tool_name),
                     EvWhich tool_name # snd (look_in_tools w tool_name)))
         | _ \<Rightarrow> (Returned [''Error checking tool: '' @ message w (BadWhich v)], [])))"

section \<open>The handler\<close>

definition call_tool :: "world \<Rightarrow> string \<Rightarrow> (string \<rightharpoonup> pyval) \<Rightarrow> outcome \<times> event list" where
  "call_tool w name arguments =
     (if name = ''execute_command'' then execute_command w arguments
      else if name = ''check_tool_available'' then check_tool_available w arguments
      else if name = ''run_security_tool'' then run_security_tool w arguments
      else if name = ''web3_scanner_scan'' then web3_scanner_scan w arguments
      else if name = ''start_web3se_services'' then start_web3se_services w arguments
      else if name = ''check_web3se_status'' then check_web3se_status w
      else (Returned [''Unknown tool: '' @ name], []))"

section \<open>Two machines to run the examples on\<close>

text \<open>
  A home directory \<^verbatim>\<open>/home/u\<close> with three tools checked out under \<^verbatim>\<open>tools\<close> (slither and
  securify2 with their package directories, solc-select empty) and the scanner. The shell
  is one that forks its commands, so that no command dies with it. No user
  \<^verbatim>\<open>nosuchuser\<close> exists; \<^verbatim>\<open>sleep 5\<close> runs five seconds and prints a line first,
  \<^verbatim>\<open>tail -f /dev/null\<close> never ends, every other command prints \<^verbatim>\<open>hello\<close> and exits at
  once; \<^verbatim>\<open>which\<close> finds nothing and nothing listens on the two ports.
\<close>

definition home_fs :: "(string \<times> node) list" where
  "home_fs =
     [(''/home/u'', Directory True),
      (''/home/u/tools'', Directory True),
      (''/home/u/tools/slither'', Directory True),
      (''/home/u/tools/slither/slither'', Directory True),
      (''/home/u/tools/securify2'', Directory True),
      (''/home/u/tools/securify2/securify'', Directory True),
      (''/home/u/tools/securify2/securify/__init__.py'', RegularFile False),
      (''/home/u/tools/solc-select'', Directory True),
      (''/home/u/tools/web3se-lab'', Directory True),
      (''/home/u/tools/web3se-lab/web3-scanner'', RegularFile True)]"

definition home_child :: "string \<Rightarrow> child" where
  "home_child c =
     (if c = ''sleep 5''
      then \<lparr>run_time = Some 5, returncode = 0, stdout = ''starting'', stderr = [],
            dies_with_shell = False\<rparr>
      else if c = ''tail -f /dev/null''
      then \<lparr>run_time = None, returncode = 0, stdout = [], stderr = [],
            dies_with_shell = False\<rparr>
      else \<lparr>run_time = Some 0, returncode = 0, stdout = ''hello'', stderr = [],
            dies_with_shell = False\<rparr>)"

definition home_world :: world where
  "home_world =
     \<lparr>tools_dir = ''/home/u/tools'',
      environ = [''PATH'' \<mapsto> ''/usr/bin:/bin'', ''HOME'' \<mapsto> ''/home/u''],
      fs = (\<lambda>p. Inr (map_of home_fs p)),
      resolve = (\<lambda>s. if s = ''.'' then Inr ''/home/u''
                      else if s = ''~nosuchuser'' then Inl ''Could not determine home directory.''
                      else Inr s),
      spawn = (\<lambda>c d env. Inr (home_child c)),
      which = (\<lambda>s. WhichExit 1 []),
      urlopen = (\<lambda>u. HttpRaises ''<urlopen error [Errno 111] Connection refused>''),
      message = (\<lambda>m. ''TypeError''),
      lower_other = (\<lambda>s. s)\<rparr>"

text \<open>
  The same machine after \<^verbatim>\<open>chmod 000\<close> on the directories of echidna and of the scanner:
  both are still there, and nothing under them can be looked at.
\<close>
definition locked_fs :: "string \<Rightarrow> string + node option" where
  "locked_fs p =
     (if prefix ''/home/u/tools/echidna/'' p \<or> prefix ''/home/u/tools/web3se-lab/'' p
      then Inl (''[Errno 13] Permission denied: '' @ [CHR 0x27] @ p @ [CHR 0x27])
      else if p = ''/home/u/tools/echidna'' \<or> p = ''/home/u/tools/web3se-lab''
      then Inr (Some (Directory False))
      else Inr (map_of home_fs p))"

definition locked_world :: world where
  "locked_world = home_world\<lparr>fs := locked_fs\<rparr>"

section \<open>The resolver\<close>

lemmas string_defs =
  py_lower_def is_ascii_def lower_char_def is_space_def white_space_def is_cont_def
  py_strip_def py_split_def py_replace_def py_in_def sublist_code(3)
  pjoin_def root_of_def components_def as_path_def NL_def

lemmas resolver_defs =
  find_tool_executable_def tool_configs_def module_check_def module_path_def
  possible_paths_def template_info_def exists_path_def access_x_def is_dir_def

lemma home_fields:
  "tools_dir home_world = ''/home/u/tools''"
  "environ home_world = [''PATH'' \<mapsto> ''/usr/bin:/bin'', ''HOME'' \<mapsto> ''/home/u'']"
  "fs home_world p = Inr (map_of home_fs p)"
  "resolve home_world s =
     (if s = ''.'' then Inr ''/home/u''
      else if s = ''~nosuchuser'' then Inl ''Could not determine home directory.''
      else Inr s)"
  "spawn home_world c d env = Inr (home_child c)"
  "which home_world s = WhichExit 1 []"
  "urlopen home_world u = HttpRaises ''<urlopen error [Errno 111] Connection refused>''"
  "message home_world m = ''TypeError''"
  "lower_other home_world s = s"
  by (simp_all add: home_world_def)

lemma locked_fields:
  "tools_dir locked_world = ''/home/u/tools''"
  "environ locked_world = [''PATH'' \<mapsto> ''/usr/bin:/bin'', ''HOME'' \<mapsto> ''/home/u'']"
  "fs locked_world p = locked_fs p"
  "urlopen locked_world u = HttpRaises ''<urlopen error [Errno 111] Connection refused>''"
  "lower_other locked_world s = s"
  by (simp_all add: locked_world_def home_world_def)

text \<open>No key of the registry is the empty string.\<close>
lemma no_empty_key: "map_of (tool_configs w) [] = None"
  by (simp add: tool_configs_def)

text \<open>A probe that raises is the last event of the resolver's trace.\<close>
lemma module_check_raises:
  "fst (module_check w config) = Inl e \<Longrightarrow>
   \<exists>p. EvExists p \<in> set (snd (module_check w config)) \<and> fs w p = Inl e"
  by (auto simp: module_check_def exists_path_def
      split: option.splits sum.splits if_splits)

lemma first_executable_raises:
  "fst (first_executable w ps) = Inl e \<Longrightarrow>
   \<exists>p. EvExists p \<in> set (snd (first_executable w ps)) \<and> fs w p = Inl e"
  by (induction ps) (auto simp: exists_path_def split: option.splits sum.splits if_splits)

lemma find_tool_executable_raises:
  assumes "fst (find_tool_executable w tool_name) = Inl e"
  shows "\<exists>p. EvExists p \<in> set (snd (find_tool_executable w tool_name)) \<and> fs w p = Inl e"
proof (cases "map_of (tool_configs w) (py_lower w tool_name)")
  case None
  with assms show ?thesis by (simp add: find_tool_executable_def)
next
  case (Some config)
  show ?thesis
  proof (cases "exists_path w (dir config)")
    case (Inl e')
    with Some assms show ?thesis
      by (auto simp: find_tool_executable_def exists_path_def split: sum.splits option.splits)
  next
    case (Inr there)
    note dir = this
    show ?thesis
    proof (cases there)
      case False
      with Some dir assms show ?thesis by (simp add: find_tool_executable_def)
    next
      case True
      obtain m t1 where mc: "module_check w config = (m, t1)" by (cases "module_check w config")
      show ?thesis
      proof (cases m)
        case (Inl e')
        with mc module_check_raises [of w config e']
        obtain p where "EvExists p \<in> set t1" "fs w p = Inl e'" by auto
        with Some dir True mc Inl assms show ?thesis
          by (auto simp: find_tool_executable_def)
      next
        case (Inr found)
        note m = this
        show ?thesis
        proof (cases found)
          case True
          with Some dir \<open>there\<close> mc m assms show ?thesis by (simp add: find_tool_executable_def)
        next
          case False
          obtain r t2 where fe: "first_executable w (possible_paths w config tool_name) = (r, t2)"
            by (cases "first_executable w (possible_paths w config tool_name)")
          with Some dir \<open>there\<close> mc m False assms have "r = Inl e"
            by (simp add: find_tool_executable_def split: sum.splits option.splits)
          with fe first_executable_raises [of w "possible_paths w config tool_name" e]
          obtain p where "EvExists p \<in> set t2" "fs w p = Inl e" by auto
          with Some dir \<open>there\<close> mc m False fe \<open>r = Inl e\<close> show ?thesis
            by (auto simp: find_tool_executable_def)
        qed
      qed
    qed
  qed
qed

lemma find_tool_executable_exists:
  "fst (find_tool_executable w tool_name) = Inr (Some info) \<Longrightarrow>
   exists_path w (cwd info) = Inr True"
  by (auto simp: find_tool_executable_def template_info_def
      split: option.splits if_splits sum.splits prod.splits)

text \<open>
  C2, as amended. Provided every path the resolver looks at can be examined (no probe
  raises), the resolver answers \<open>None\<close> exactly when the lowercased name is no key of the
  registry or the directory registered for it does not exist. For a key whose directory
  exists it answers an invocation whose working directory is that directory, and whose
  command is the registered template when neither the module check nor any candidate
  path succeeds.
\<close>
theorem resolve_not_found_iff:
  assumes "\<forall>p. EvExists p \<in> set (snd (find_tool_executable w tool_name))
             \<longrightarrow> (\<exists>r. fs w p = Inr r)"
  shows "(fst (find_tool_executable w tool_name) = Inr None \<longleftrightarrow>
            (case map_of (tool_configs w) (py_lower w tool_name) of
               None \<Rightarrow> True
             | Some config \<Rightarrow> exists_path w (dir config) = Inr False))
         \<and> (\<forall>config. map_of (tool_configs w) (py_lower w tool_name) = Some config
                \<and> exists_path w (dir config) = Inr True \<longrightarrow>
              (\<exists>info. fst (find_tool_executable w tool_name) = Inr (Some info)
                 \<and> cwd info = dir config
                 \<and> (fst (module_check w config) = Inr False
                      \<and> fst (first_executable w (possible_paths w config tool_name)) = Inr None
                      \<longrightarrow> info_command info = command config)))"
proof -
  have returns: "\<forall>e. fst (find_tool_executable w tool_name) \<noteq> Inl e"
  proof (intro allI notI)
    fix e
    assume "fst (find_tool_executable w tool_name) = Inl e"
    then obtain p where "EvExists p \<in> set (snd (find_tool_executable w tool_name))"
      and "fs w p = Inl e"
      using find_tool_executable_raises by blast
    with assms show False by auto
  qed
  show ?thesis
  proof (cases "map_of (tool_configs w) (py_lower w tool_name)")
    case None
    then show ?thesis by (simp add: find_tool_executable_def)
  next
    case (Some config)
    obtain m t1 where mc: "module_check w config = (m, t1)"
      by (cases "module_check w config")
    obtain r t2 where fe: "first_executable w (possible_paths w config tool_name) = (r, t2)"
      by (cases "first_executable w (possible_paths w config tool_name)")
    from returns Some mc fe show ?thesis
      by (cases "exists_path w (dir config)"; cases m; cases r)
         (auto simp: find_tool_executable_def template_info_def split: option.splits)
  qed
qed

text \<open>On the first machine \<^verbatim>\<open>Solc-Select\<close> has its directory and nothing in it: the
  template comes back.\<close>
theorem resolve_not_found_iff_witness:
  "map_of (tool_configs home_world) (py_lower home_world ''Solc-Select'')
     = Some \<lparr>dir = ''/home/u/tools/solc-select'', command = ''solc-select'',
             description = ''Solidity compiler version selector''\<rparr>
   \<and> exists_path home_world ''/home/u/tools/solc-select'' = Inr True
   \<and> fst (find_tool_executable home_world ''Solc-Select'') \<noteq> Inr None
   \<and> (\<exists>info. fst (find_tool_executable home_world ''Solc-Select'') = Inr (Some info)
         \<and> cwd info = ''/home/u/tools/solc-select''
         \<and> info_command info = ''solc-select'')"
proof -
  let ?config = "\<lparr>dir = ''/home/u/tools/solc-select'', command = ''solc-select'',
                  description = ''Solidity compiler version selector''\<rparr>"
  have answers: "\<forall>p. EvExists p \<in> set (snd (find_tool_executable home_world ''Solc-Select''))
             \<longrightarrow> (\<exists>r. fs home_world p = Inr r)"
    by (simp add: home_fields)
  have key: "map_of (tool_configs home_world) (py_lower home_world ''Solc-Select'')
               = Some ?config"
    by (simp add: string_defs resolver_defs home_fields)
  have there: "exists_path home_world (dir ?config) = Inr True"
    by (simp add: resolver_defs home_fields home_fs_def)
  have no_module: "fst (module_check home_world ?config) = Inr False"
    by (simp add: string_defs resolver_defs home_fields)
  have no_candidate:
    "fst (first_executable home_world (possible_paths home_world ?config ''Solc-Select''))
       = Inr None"
    by (simp add: string_defs resolver_defs home_fields home_fs_def)
  from resolve_not_found_iff [OF answers] key there no_module no_candidate
  show ?thesis by auto
qed

text \<open>
  C2 as stated fails where a probe raises: on the second machine echidna is a key of the
  registry and its directory exists, and the resolver neither answers \<open>None\<close> nor an
  invocation, because the first candidate path under the directory cannot be examined.
\<close>
theorem resolve_raises_in_locked_directory:
  "map_of (tool_configs locked_world) (py_lower locked_world ''echidna'')
     = Some \<lparr>dir = ''/home/u/tools/echidna'', command = ''echidna-test'',
             description = ''Echidna fuzzing tool''\<rparr>
   \<and> exists_path locked_world ''/home/u/tools/echidna'' = Inr True
   \<and> find_tool_executable locked_world ''echidna''
       = (Inl (''[Errno 13] Permission denied: '' @ [CHR 0x27]
               @ ''/home/u/tools/echidna/echidna'' @ [CHR 0x27]),
          [EvExists ''/home/u/tools/echidna'', EvExists ''/home/u/tools/echidna/echidna''])"
  by (simp add: string_defs resolver_defs locked_fields locked_fs_def)

text \<open>
  C5. For the registry entries launched with \<^verbatim>\<open>python3 -m\<close> the path that is checked is
  the directory joined with \<^verbatim>\<open>-m\<close>, not with the module: on the first machine the
  package \<^verbatim>\<open>securify\<close> is there with its \<^verbatim>\<open>__init__.py\<close>, and the resolver answers
  the package directory as the command instead of the template.
\<close>
theorem module_check_misses_module:
  "module_path \<lparr>dir = ''/home/u/tools/securify2'', command = ''python3 -m securify'',
                description = ''Securify2 static analyzer''\<rparr>
     = Some ''/home/u/tools/securify2/-m''
   \<and> exists_path home_world ''/home/u/tools/securify2/securify'' = Inr True
   \<and> exists_path home_world ''/home/u/tools/securify2/securify/__init__.py'' = Inr True
   \<and> fst (find_tool_executable home_world ''securify'')
       = Inr (Some \<lparr>info_command = ''/home/u/tools/securify2/securify'',
                    cwd = ''/home/u/tools/securify2'',
                    info_description = ''Securify2 static analyzer''\<rparr>)"
  by (simp add: string_defs resolver_defs home_fields home_fs_def)



section \<open>The environment handed to the children\<close>

lemma py_in_front: "py_in t (t @ rest)"
  by (simp add: py_in_def)

lemma prepare_env_DEFAULT_ENV: "prepare_env (tools_dir w) (DEFAULT_ENV w) = DEFAULT_ENV w"
  by (simp add: prepare_env_def DEFAULT_ENV_def env_get_def py_in_front)

lemma prepare_env_idem: "prepare_env t (prepare_env t e) = prepare_env t e"
  by (simp add: prepare_env_def env_get_def py_in_front Let_def)

lemma module_check_no_spawn: "EvSpawn c d env \<notin> set (snd (module_check w config))"
  by (auto simp: module_check_def split: option.splits sum.splits)

lemma first_executable_no_spawn: "EvSpawn c d env \<notin> set (snd (first_executable w ps))"
  by (induction ps) (auto split: sum.splits)

lemma find_tool_executable_no_spawn: "EvSpawn c d env \<notin> set (snd (find_tool_executable w n))"
proof (cases "map_of (tool_configs w) (py_lower w n)")
  case None
  then show ?thesis by (simp add: find_tool_executable_def)
next
  case (Some config)
  obtain m t1 where mc: "module_check w config = (m, t1)"
    by (cases "module_check w config")
  obtain r t2 where fe: "first_executable w (possible_paths w config n) = (r, t2)"
    by (cases "first_executable w (possible_paths w config n)")
  from mc have "EvSpawn c d env \<notin> set t1"
    using module_check_no_spawn [of c d env w config] by simp
  moreover from fe have "EvSpawn c d env \<notin> set t2"
    using first_executable_no_spawn [of c d env w "possible_paths w config n"] by simp
  ultimately show ?thesis
    using Some mc fe
    by (auto simp: find_tool_executable_def split: sum.splits option.splits)
qed

lemma find_tool_executable_no_spawn_pair:
  "find_tool_executable w n = (r, t) \<Longrightarrow> EvSpawn c d env \<notin> set t"
  using find_tool_executable_no_spawn [of c d env w n] by simp

lemma find_with_alias_no_spawn:
  "find_with_alias w n = (r, t) \<Longrightarrow> EvSpawn c d env \<notin> set t"
  by (auto simp: find_with_alias_def find_tool_executable_no_spawn
      split: prod.splits option.splits sum.splits if_splits
      dest: find_tool_executable_no_spawn_pair)

lemma first_executable_no_spawn_pair:
  "first_executable w ps = (r, t) \<Longrightarrow> EvSpawn c d env \<notin> set t"
  using first_executable_no_spawn [of c d env w ps] by simp

lemma scan_tool_dirs_no_spawn: "EvSpawn c d env \<notin> set (snd (scan_tool_dirs w n ds))"
  by (induction ds)
     (auto split: prod.splits option.splits sum.splits dest: first_executable_no_spawn_pair)

lemma scan_tool_dirs_no_spawn_pair:
  "scan_tool_dirs w n ds = (r, t) \<Longrightarrow> EvSpawn c d env \<notin> set t"
  using scan_tool_dirs_no_spawn [of c d env w n ds] by simp

lemma shell_spawn:
  "shell w cmd dir_opt e = (r, t) \<Longrightarrow> EvSpawn c d env \<in> set t \<Longrightarrow> env = e"
  by (auto simp: shell_def split: pyval.splits)

lemma path_resolve_no_spawn:
  "path_resolve w v = (r, t) \<Longrightarrow> EvSpawn c d env \<notin> set t"
  by (auto simp: path_resolve_def split: pyval.splits)

lemma saved_note_no_spawn:
  "saved_note w v = (r, t) \<Longrightarrow> EvSpawn c d env \<notin> set t"
  by (auto simp: saved_note_def split: if_splits)

lemma execute_command_spawn:
  "EvSpawn c d env \<in> set (snd (execute_command w arguments)) \<Longrightarrow> env = DEFAULT_ENV w"
  by (auto simp: execute_command_def Let_def prepare_env_DEFAULT_ENV
      split: if_splits prod.splits sum.splits waited.splits
      dest: shell_spawn path_resolve_no_spawn)

lemma run_found_spawn:
  "EvSpawn c d env \<in> set (snd (run_found w n a wd tv info)) \<Longrightarrow> env = DEFAULT_ENV w"
  by (auto simp: run_found_def Let_def prepare_env_DEFAULT_ENV
      split: if_splits prod.splits sum.splits waited.splits
      dest: shell_spawn path_resolve_no_spawn)

lemma run_security_tool_spawn:
  "EvSpawn c d env \<in> set (snd (run_security_tool w arguments)) \<Longrightarrow> env = DEFAULT_ENV w"
  by (auto simp: run_security_tool_def Let_def
      split: if_splits prod.splits option.splits sum.splits pyval.splits
      dest: run_found_spawn find_with_alias_no_spawn)

lemma web3_scanner_scan_spawn:
  "EvSpawn c d env \<in> set (snd (web3_scanner_scan w arguments)) \<Longrightarrow> env = DEFAULT_ENV w"
  by (auto simp: web3_scanner_scan_def Let_def
      split: if_splits prod.splits sum.splits waited.splits
      dest: shell_spawn saved_note_no_spawn)

lemma check_web3se_status_no_spawn:
  "EvSpawn c d env \<notin> set (snd (check_web3se_status w))"
  by (simp add: check_web3se_status_def)

lemma start_web3se_services_spawn:
  "EvSpawn c d env \<in> set (snd (start_web3se_services w arguments)) \<Longrightarrow> env = DEFAULT_ENV w"
  by (auto simp: start_web3se_services_def Let_def check_web3se_status_no_spawn
      split: if_splits prod.splits sum.splits option.splits
      dest: shell_spawn)

lemma look_in_tools_no_spawn:
  "EvSpawn c d env \<notin> set (snd (look_in_tools w n))"
  by (auto simp: look_in_tools_def
      split: prod.splits option.splits sum.splits
      dest: find_tool_executable_no_spawn_pair scan_tool_dirs_no_spawn_pair)

lemma check_tool_available_no_spawn:
  "EvSpawn c d env \<notin> set (snd (check_tool_available w arguments))"
  by (auto simp: check_tool_available_def Let_def look_in_tools_no_spawn
      split: if_splits pyval.splits which_result.splits)

lemma call_tool_spawn:
  "EvSpawn c d env \<in> set (snd (call_tool w name arguments)) \<Longrightarrow> env = DEFAULT_ENV w"
  by (auto simp: call_tool_def check_tool_available_no_spawn check_web3se_status_no_spawn
      split: if_splits
      dest: execute_command_spawn run_security_tool_spawn web3_scanner_scan_spawn
        start_web3se_services_spawn)

lemma home_urls:
  "smartbert_url home_world = ''http://localhost:9900''"
  "web3sekit_url home_world = ''http://localhost:8081''"
  "web3_scanner home_world = ''/home/u/tools/web3se-lab/web3-scanner''"
  "web3se_lab_dir home_world = ''/home/u/tools/web3se-lab''"
  by (simp_all add: smartbert_url_def web3sekit_url_def web3_scanner_def web3se_lab_dir_def
      DEFAULT_ENV_def env_get_def home_fields string_defs)

lemma home_prepare_env:
  "prepare_env ''/home/u/tools'' (DEFAULT_ENV home_world) = DEFAULT_ENV home_world"
  using prepare_env_DEFAULT_ENV [of home_world] by (simp add: home_fields)

lemma small_bound: "t \<le> 86400 \<Longrightarrow> \<not> float_limit \<le> t"
  by (simp add: float_limit_def)

lemmas call_defs =
  call_tool_def arg_get_def path_resolve_def shell_def wait_for_def within_def small_bound
  exists_path_def access_x_def is_dir_def Let_def

text \<open>
  C6. Whatever the operation and its arguments, a child is started with the environment
  of the server process overlaid with \<^verbatim>\<open>PATH\<close>, \<^verbatim>\<open>SMARTBERT_API\<close> and \<^verbatim>\<open>WEB3_SEKIT_API\<close>; its
  \<^verbatim>\<open>PATH\<close> starts with the tools directory. Preparing the environment a second time
  changes nothing, for any dict and any tools directory, so the prefix is there once.
\<close>
theorem execution_environment:
  "(EvSpawn c d env \<in> set (snd (call_tool w name arguments)) \<longrightarrow>
      env = (environ w)
              (''PATH'' \<mapsto>
                 tools_dir w @ '':'' @ web3se_lab_dir w @ '':'' @ env_get (environ w) ''PATH'' [],
               ''SMARTBERT_API'' \<mapsto>
                 env_get (environ w) ''SMARTBERT_API'' ''http://localhost:9900'',
               ''WEB3_SEKIT_API'' \<mapsto>
                 env_get (environ w) ''WEB3_SEKIT_API'' ''http://localhost:8081''))
   \<and> prepare_env t (prepare_env t e) = prepare_env t e
   \<and> prepare_env (tools_dir w) (prepare_env (tools_dir w) (DEFAULT_ENV w)) ''PATH''
       = Some (tools_dir w @ '':'' @ web3se_lab_dir w @ '':'' @ env_get (environ w) ''PATH'' [])"
proof (intro conjI impI)
  assume "EvSpawn c d env \<in> set (snd (call_tool w name arguments))"
  then have "env = DEFAULT_ENV w" by (rule call_tool_spawn)
  then show "env = (environ w)
              (''PATH'' \<mapsto>
                 tools_dir w @ '':'' @ web3se_lab_dir w @ '':'' @ env_get (environ w) ''PATH'' [],
               ''SMARTBERT_API'' \<mapsto>
                 env_get (environ w) ''SMARTBERT_API'' ''http://localhost:9900'',
               ''WEB3_SEKIT_API'' \<mapsto>
                 env_get (environ w) ''WEB3_SEKIT_API'' ''http://localhost:8081'')"
    by (simp add: DEFAULT_ENV_def)
next
  show "prepare_env t (prepare_env t e) = prepare_env t e" by (rule prepare_env_idem)
next
  show "prepare_env (tools_dir w) (prepare_env (tools_dir w) (DEFAULT_ENV w)) ''PATH''
       = Some (tools_dir w @ '':'' @ web3se_lab_dir w @ '':'' @ env_get (environ w) ''PATH'' [])"
    by (simp add: prepare_env_DEFAULT_ENV) (simp add: DEFAULT_ENV_def)
qed

text \<open>Scenario A of the specification, on the first machine.\<close>
lemma home_echo:
  "call_tool home_world ''execute_command'' [''command'' \<mapsto> PStr ''echo hello'']
     = (Returned [''Command: echo hello'' @ NL @ ''Working Directory: /home/u'' @ NL
                  @ ''Exit Code: 0'' @ NL @ rule50 @ NL @ ''STDOUT:'' @ NL @ ''hello'' @ NL],
        [EvResolve ''.'', EvExists ''/home/u'',
         EvSpawn ''echo hello'' (Some ''/home/u'') (DEFAULT_ENV home_world)])"
  by (simp add: call_defs execute_command_def home_fields home_prepare_env home_fs_def
      home_child_def streams_def str_int_def str_nat.simps)

theorem execution_environment_witness:
  "EvSpawn ''echo hello'' (Some ''/home/u'') (DEFAULT_ENV home_world)
     \<in> set (snd (call_tool home_world ''execute_command'' [''command'' \<mapsto> PStr ''echo hello'']))
   \<and> DEFAULT_ENV home_world
       = [''PATH'' \<mapsto> ''/home/u/tools:/home/u/tools/web3se-lab:/usr/bin:/bin'',
          ''HOME'' \<mapsto> ''/home/u'',
          ''SMARTBERT_API'' \<mapsto> ''http://localhost:9900'',
          ''WEB3_SEKIT_API'' \<mapsto> ''http://localhost:8081'']
   \<and> prepare_env ''/home/u/tools'' (prepare_env ''/home/u/tools'' (DEFAULT_ENV home_world)) ''PATH''
       = Some ''/home/u/tools:/home/u/tools/web3se-lab:/usr/bin:/bin''"
proof -
  note inst = execution_environment [of "''echo hello''" "Some ''/home/u''" "DEFAULT_ENV home_world"
      home_world "''execute_command''" "[''command'' \<mapsto> PStr ''echo hello'']"
      "''/home/u/tools''" "DEFAULT_ENV home_world"]
  have spawned: "EvSpawn ''echo hello'' (Some ''/home/u'') (DEFAULT_ENV home_world)
     \<in> set (snd (call_tool home_world ''execute_command'' [''command'' \<mapsto> PStr ''echo hello'']))"
    by (simp add: home_echo)
  have env: "DEFAULT_ENV home_world = (environ home_world)
              (''PATH'' \<mapsto>
                 tools_dir home_world @ '':'' @ web3se_lab_dir home_world @ '':''
                 @ env_get (environ home_world) ''PATH'' [],
               ''SMARTBERT_API'' \<mapsto>
                 env_get (environ home_world) ''SMARTBERT_API'' ''http://localhost:9900'',
               ''WEB3_SEKIT_API'' \<mapsto>
                 env_get (environ home_world) ''WEB3_SEKIT_API'' ''http://localhost:8081'')"
    using inst spawned by blast
  have twice: "prepare_env (tools_dir home_world)
                  (prepare_env (tools_dir home_world) (DEFAULT_ENV home_world)) ''PATH''
       = Some (tools_dir home_world @ '':'' @ web3se_lab_dir home_world @ '':''
               @ env_get (environ home_world) ''PATH'' [])"
    using inst by blast
  have e: "DEFAULT_ENV home_world
       = [''PATH'' \<mapsto> ''/home/u/tools:/home/u/tools/web3se-lab:/usr/bin:/bin'',
          ''HOME'' \<mapsto> ''/home/u'',
          ''SMARTBERT_API'' \<mapsto> ''http://localhost:9900'',
          ''WEB3_SEKIT_API'' \<mapsto> ''http://localhost:8081'']"
    by (subst env) (auto simp: home_fields home_urls env_get_def)
  have t: "prepare_env ''/home/u/tools'' (prepare_env ''/home/u/tools'' (DEFAULT_ENV home_world)) ''PATH''
       = Some ''/home/u/tools:/home/u/tools/web3se-lab:/usr/bin:/bin''"
    using twice by (simp add: home_fields home_urls env_get_def)
  from spawned e t show ?thesis by blast
qed

section \<open>Timeouts\<close>

lemma find_with_alias_nonempty:
  assumes "find_with_alias w n = (Inr (Some info), t)"
  shows "n \<noteq> []"
proof
  assume "n = []"
  then have "find_tool_executable w n = (Inr None, [])"
    by (simp add: find_tool_executable_def py_lower_def no_empty_key)
  with assms \<open>n = []\<close> show False
    by (simp add: find_with_alias_def)
qed





lemma home_slither:
  "find_with_alias home_world ''slither''
     = (Inr (Some \<lparr>info_command = ''/home/u/tools/slither/slither'',
                    cwd = ''/home/u/tools/slither'',
                    info_description = ''Slither static analyzer''\<rparr>),
        [EvExists ''/home/u/tools/slither'',
         EvExists ''/home/u/tools/slither/slither/slither/py'',
         EvExists ''/home/u/tools/slither/slither/slither/py/__init__.py'',
         EvExists ''/home/u/tools/slither/slither'',
         EvAccess ''/home/u/tools/slither/slither''])"
  by (simp add: find_with_alias_def string_defs resolver_defs home_fields home_fs_def)

lemma home_lower: "py_lower home_world ''Slither'' = ''slither''"
  "py_lower home_world ''slither'' = ''slither''"
  "py_lower home_world ''solc-select'' = ''solc-select''"
  by (simp_all add: string_defs)



section \<open>Failures and missing arguments\<close>

lemma execute_command_not_raised: "fst (execute_command w arguments) \<noteq> Raised e"
  by (simp add: execute_command_def Let_def
      split: prod.splits sum.splits waited.splits)

lemma run_found_not_raised: "fst (run_found w n a d tv info) \<noteq> Raised e"
  by (simp add: run_found_def Let_def split: prod.splits sum.splits waited.splits)

lemma check_web3se_status_not_raised: "fst (check_web3se_status w) \<noteq> Raised e"
  by (simp add: check_web3se_status_def split: sum.splits)

lemma look_in_tools_not_raised: "fst (look_in_tools w n) \<noteq> Raised e"
  by (simp add: look_in_tools_def split: prod.splits option.splits sum.splits)

lemma check_tool_available_not_raised: "fst (check_tool_available w arguments) \<noteq> Raised e"
  by (simp add: check_tool_available_def Let_def look_in_tools_not_raised
      split: pyval.splits which_result.splits)

lemma web3_scanner_scan_not_raised: "fst (web3_scanner_scan w arguments) \<noteq> Raised e"
  by (simp add: web3_scanner_scan_def Let_def split: prod.splits sum.splits waited.splits)

lemma start_web3se_services_not_raised: "fst (start_web3se_services w arguments) \<noteq> Raised e"
  by (simp add: start_web3se_services_def Let_def check_web3se_status_not_raised
      split: prod.splits sum.splits option.splits)

lemma py_lower_empty: "py_lower w [] = []"
  by (simp add: py_lower_def)

text \<open>The two exceptions that leave the handler, both in \<^verbatim>\<open>run_security_tool\<close> and both
  before its \<^verbatim>\<open>try\<close>: lowering a tool name that is not a string, and a probe of the
  resolver that raises.\<close>
lemma run_security_tool_raised:
  "fst (run_security_tool w arguments) = Raised e \<Longrightarrow>
   (\<exists>v. arguments ''tool_name'' = Some v \<and> \<not> is_str v)
   \<or> (\<exists>s. arguments ''tool_name'' = Some (PStr s)
          \<and> fst (find_with_alias w (py_lower w s)) = Inl e)"
  by (auto simp: run_security_tool_def Let_def arg_get_def is_str_def run_found_not_raised
      py_lower_empty
      split: prod.splits option.splits sum.splits pyval.splits if_splits)

lemma call_tool_raised:
  "fst (call_tool w name arguments) = Raised e \<Longrightarrow>
   name = ''run_security_tool''
   \<and> ((\<exists>v. arguments ''tool_name'' = Some v \<and> \<not> is_str v)
      \<or> (\<exists>s. arguments ''tool_name'' = Some (PStr s)
             \<and> fst (find_with_alias w (py_lower w s)) = Inl e))"
  by (auto simp: call_tool_def execute_command_not_raised check_tool_available_not_raised
      web3_scanner_scan_not_raised start_web3se_services_not_raised
      check_web3se_status_not_raised
      split: if_splits dest: run_security_tool_raised)

text \<open>
  C3. The handler does let an exception out: \<^verbatim>\<open>run_security_tool\<close> calls
  \<^verbatim>\<open>.lower()\<close> on the tool name before its \<^verbatim>\<open>try\<close>, and a tool name that is not a
  string (here \<^verbatim>\<open>None\<close>, a JSON null) has no such method. Nothing is returned and nothing
  has been done by then. By \<open>call_tool_raised\<close> the only other exception that leaves
  the handler is one of the resolver's probes, in the same branch.
\<close>
theorem lower_outside_try_raises:
  "call_tool w ''run_security_tool'' [''tool_name'' \<mapsto> PNone]
     = (Raised (message w (NoLower PNone)), [])"
  by (simp add: call_tool_def run_security_tool_def arg_get_def)

lemma no_command:
  "arguments ''command'' = None \<Longrightarrow>
   execute_command w arguments = (Returned [''Error: No command provided''], [])"
  by (simp add: execute_command_def arg_get_def)

lemma no_tool_name_run:
  "arguments ''tool_name'' = None \<Longrightarrow>
   run_security_tool w arguments
     = (Returned [''Error: No tool name provided. Supported tools: slither, mythril, ''
                  @ ''echidna, securify2, medusa, fuzz-utils, solc-select''], [])"
  by (simp add: run_security_tool_def arg_get_def py_lower_def)

lemma no_tool_name_check:
  "arguments ''tool_name'' = None \<Longrightarrow>
   check_tool_available w arguments = (Returned [''Error: No tool name provided''], [])"
  by (simp add: check_tool_available_def arg_get_def)

lemma no_repository_path:
  "arguments ''repository_path'' = None \<Longrightarrow>
   web3_scanner_scan w arguments = (Returned [''Error: No repository path provided''], [])"
  by (simp add: web3_scanner_scan_def arg_get_def)

text \<open>
  C4, as amended. When \<^verbatim>\<open>command\<close> is absent from the arguments of
  \<^verbatim>\<open>execute_command\<close>, \<^verbatim>\<open>tool_name\<close> from those of \<^verbatim>\<open>run_security_tool\<close> or of
  \<^verbatim>\<open>check_tool_available\<close>, or \<^verbatim>\<open>repository_path\<close> from those of \<^verbatim>\<open>web3_scanner_scan\<close>,
  the handler returns one text that starts with \<^verbatim>\<open>Error: No\<close> and has touched nothing:
  the list of events is empty.
\<close>
theorem missing_argument_no_io:
  assumes "(name, key) \<in> {(''execute_command'', ''command''),
                           (''run_security_tool'', ''tool_name''),
                           (''check_tool_available'', ''tool_name''),
                           (''web3_scanner_scan'', ''repository_path'')}"
    and "arguments key = None"
  shows "\<exists>text. call_tool w name arguments = (Returned [''Error: No '' @ text], [])"
proof -
  from assms(1) have
    "name = ''execute_command'' \<and> key = ''command''
     \<or> name = ''run_security_tool'' \<and> key = ''tool_name''
     \<or> name = ''check_tool_available'' \<and> key = ''tool_name''
     \<or> name = ''web3_scanner_scan'' \<and> key = ''repository_path''"
    by simp
  then show ?thesis
  proof (elim disjE conjE)
    assume "name = ''execute_command''" "key = ''command''"
    with assms(2) show ?thesis
      by (simp add: call_tool_def no_command)
  next
    assume "name = ''run_security_tool''" "key = ''tool_name''"
    with assms(2) show ?thesis
      by (simp add: call_tool_def no_tool_name_run)
  next
    assume "name = ''check_tool_available''" "key = ''tool_name''"
    with assms(2) show ?thesis
      by (simp add: call_tool_def no_tool_name_check)
  next
    assume "name = ''web3_scanner_scan''" "key = ''repository_path''"
    with assms(2) show ?thesis
      by (simp add: call_tool_def no_repository_path)
  qed
qed

theorem missing_argument_no_io_witness:
  "Map.empty ''tool_name'' = None
   \<and> (\<exists>text. call_tool home_world ''check_tool_available'' Map.empty
                = (Returned [''Error: No '' @ text], []))"
  using missing_argument_no_io
          [of "''check_tool_available''" "''tool_name''" Map.empty home_world]
  by simp

text \<open>
  C4 as stated fails for the argument \<^verbatim>\<open>arguments\<close> of \<^verbatim>\<open>run_security_tool\<close>: its
  default is the empty string and it is never checked, so the tool is looked up and run
  without arguments.
\<close>
theorem missing_arguments_still_runs:
  "[''tool_name'' \<mapsto> PStr ''solc-select''] ''arguments'' = None
   \<and> call_tool home_world ''run_security_tool'' [''tool_name'' \<mapsto> PStr ''solc-select'']
       = (Returned [''Security Tool Execution: solc-select'' @ NL
                    @ ''Command: solc-select'' @ NL
                    @ ''Working Directory: /home/u/tools/solc-select'' @ NL
                    @ ''Exit Code: 0'' @ NL @ rule50 @ NL
                    @ ''STDOUT:'' @ NL @ ''hello'' @ NL],
          [EvExists ''/home/u/tools/solc-select'',
           EvExists ''/home/u/tools/solc-select/solc-select'',
           EvExists ''/home/u/tools/solc-select/solc-select'',
           EvExists ''/home/u/tools/solc-select/bin/solc-select'',
           EvExists ''/home/u/tools/solc-select/bin/solc-select'',
           EvResolve ''.'', EvResolve ''/home/u/tools/solc-select'',
           EvExists ''/home/u/tools/solc-select'',
           EvSpawn ''solc-select'' (Some ''/home/u/tools/solc-select'') (DEFAULT_ENV home_world)])"
proof -
  have found: "find_with_alias home_world ''solc-select''
     = (Inr (Some \<lparr>info_command = ''solc-select'', cwd = ''/home/u/tools/solc-select'',
                    info_description = ''Solidity compiler version selector''\<rparr>),
        [EvExists ''/home/u/tools/solc-select'',
           EvExists ''/home/u/tools/solc-select/solc-select'',
           EvExists ''/home/u/tools/solc-select/solc-select'',
           EvExists ''/home/u/tools/solc-select/bin/solc-select'',
           EvExists ''/home/u/tools/solc-select/bin/solc-select''])"
    by (simp add: find_with_alias_def string_defs resolver_defs home_fields home_fs_def)
  have strip: "py_strip ''solc-select '' = ''solc-select''"
    by (simp add: string_defs)
  show ?thesis
    by (simp add: call_tool_def run_security_tool_def run_found_def arg_get_def home_lower
        found Let_def path_resolve_def shell_def home_fields home_prepare_env strip
        wait_for_def within_def small_bound home_child_def exists_path_def home_fs_def
        streams_def str_int_def str_nat.simps)
qed

section \<open>The status of the services\<close>

text \<open>When the look at the scanner answers, the report is the heading and then, in this
  order, one line for SmartBERT (running exactly when the request succeeds and its body
  parses) with its detail lines, one line for web3-sekit (running exactly when the request
  succeeds) and one line for the scanner (available exactly when the file exists). No
  other line is in the report.\<close>
lemma status_when_scanner_answers:
  assumes "exists_path w (web3_scanner w) = Inr there"
  shows "\<exists>detail. call_tool w ''check_web3se_status'' arguments
       = (Returned [''web3se-lab Service Status:'' @ NL @ py_join NL
            ([if \<exists>b. urlopen w (smartbert_url w) = HttpResponse b \<and> (\<forall>e. b \<noteq> BadBody e)
              then CHECK @ '' SmartBERT API: Running at '' @ smartbert_url w
              else CROSS @ '' SmartBERT API: Not running at '' @ smartbert_url w]
             @ detail
             @ [if \<exists>b. urlopen w (web3sekit_url w) = HttpResponse b
                then CHECK @ '' web3-sekit API: Running at '' @ web3sekit_url w
                else CROSS @ '' web3-sekit API: Not running at '' @ web3sekit_url w,
                if there
                then CHECK @ '' web3-scanner CLI: Available at '' @ web3_scanner w
                else CROSS @ '' web3-scanner CLI: Not found at '' @ web3_scanner w])],
          [EvUrlopen (smartbert_url w), EvUrlopen (web3sekit_url w),
           EvExists (web3_scanner w)])
     \<and> length detail \<le> 1
     \<and> (\<forall>l \<in> set detail. take 3 l = ''   '')"
proof -
  have sb: "\<exists>detail. smartbert_status w
      = [if \<exists>b. urlopen w (smartbert_url w) = HttpResponse b \<and> (\<forall>e. b \<noteq> BadBody e)
         then CHECK @ '' SmartBERT API: Running at '' @ smartbert_url w
         else CROSS @ '' SmartBERT API: Not running at '' @ smartbert_url w] @ detail
      \<and> length detail \<le> 1 \<and> (\<forall>l \<in> set detail. take 3 l = ''   '')"
    by (cases "urlopen w (smartbert_url w)")
       (auto simp: smartbert_status_def smartbert_down_def split: body.splits)
  have ws: "web3sekit_status w
      = [if \<exists>b. urlopen w (web3sekit_url w) = HttpResponse b
         then CHECK @ '' web3-sekit API: Running at '' @ web3sekit_url w
         else CROSS @ '' web3-sekit API: Not running at '' @ web3sekit_url w]"
    by (cases "urlopen w (web3sekit_url w)") (simp_all add: web3sekit_status_def)
  have sc: "scanner_status w
      = Inr [if there
             then CHECK @ '' web3-scanner CLI: Available at '' @ web3_scanner w
             else CROSS @ '' web3-scanner CLI: Not found at '' @ web3_scanner w]"
    using assms by (simp add: scanner_status_def)
  from sb obtain detail where d: "smartbert_status w
      = [if \<exists>b. urlopen w (smartbert_url w) = HttpResponse b \<and> (\<forall>e. b \<noteq> BadBody e)
         then CHECK @ '' SmartBERT API: Running at '' @ smartbert_url w
         else CROSS @ '' SmartBERT API: Not running at '' @ smartbert_url w] @ detail"
    and small: "length detail \<le> 1" "\<forall>l \<in> set detail. take 3 l = ''   ''"
    by blast
  have "call_tool w ''check_web3se_status'' arguments
       = (Returned [''web3se-lab Service Status:'' @ NL @ py_join NL
            (smartbert_status w @ web3sekit_status w
             @ [if there
                then CHECK @ '' web3-scanner CLI: Available at '' @ web3_scanner w
                else CROSS @ '' web3-scanner CLI: Not found at '' @ web3_scanner w])],
          [EvUrlopen (smartbert_url w), EvUrlopen (web3sekit_url w),
           EvExists (web3_scanner w)])"
    by (simp add: call_tool_def check_web3se_status_def sc)
  then have "call_tool w ''check_web3se_status'' arguments
       = (Returned [''web3se-lab Service Status:'' @ NL @ py_join NL
            ([if \<exists>b. urlopen w (smartbert_url w) = HttpResponse b \<and> (\<forall>e. b \<noteq> BadBody e)
              then CHECK @ '' SmartBERT API: Running at '' @ smartbert_url w
              else CROSS @ '' SmartBERT API: Not running at '' @ smartbert_url w]
             @ detail
             @ [if \<exists>b. urlopen w (web3sekit_url w) = HttpResponse b
                then CHECK @ '' web3-sekit API: Running at '' @ web3sekit_url w
                else CROSS @ '' web3-sekit API: Not running at '' @ web3sekit_url w,
                if there
                then CHECK @ '' web3-scanner CLI: Available at '' @ web3_scanner w
                else CROSS @ '' web3-scanner CLI: Not found at '' @ web3_scanner w])],
          [EvUrlopen (smartbert_url w), EvUrlopen (web3sekit_url w),
           EvExists (web3_scanner w)])"
    unfolding d ws by simp
  with small show ?thesis
    by blast
qed

text \<open>Scenario D of the specification: nothing listens, and the scanner is still looked
  for and found.\<close>
lemma status_nothing_listens:
  "call_tool home_world ''check_web3se_status'' Map.empty
     = (Returned [''web3se-lab Service Status:'' @ NL
          @ CROSS @ '' SmartBERT API: Not running at http://localhost:9900'' @ NL
          @ ''   Error: <urlopen error [Errno 111] Connection refused>'' @ NL
          @ CROSS @ '' web3-sekit API: Not running at http://localhost:8081'' @ NL
          @ CHECK @ '' web3-scanner CLI: Available at /home/u/tools/web3se-lab/web3-scanner''],
        [EvUrlopen ''http://localhost:9900'', EvUrlopen ''http://localhost:8081'',
         EvExists ''/home/u/tools/web3se-lab/web3-scanner''])"
  by (simp add: call_tool_def check_web3se_status_def scanner_status_def smartbert_status_def
      smartbert_down_def web3sekit_status_def home_urls home_fields exists_path_def
      home_fs_def)

lemma locked_urls:
  "smartbert_url locked_world = ''http://localhost:9900''"
  "web3sekit_url locked_world = ''http://localhost:8081''"
  "web3_scanner locked_world = ''/home/u/tools/web3se-lab/web3-scanner''"
  by (simp_all add: smartbert_url_def web3sekit_url_def web3_scanner_def web3se_lab_dir_def
      DEFAULT_ENV_def env_get_def locked_fields string_defs)

text \<open>
  C8. The status check is to return all three results whatever each of the three probes
  does. The two requests have a handler of their own (lines 626 to 642); the look at the
  scanner (lines 645 to 649) has none. On a machine where the directory of web3se-lab
  cannot be searched, \<^verbatim>\<open>web3_scanner.exists()\<close> raises, the handler of the whole branch
  answers with its one line, and the results of both requests, which had been made, are
  lost.
\<close>
theorem status_lost_when_scanner_check_raises:
  "call_tool locked_world ''check_web3se_status'' Map.empty
     = (Returned [''Error checking web3se-lab status: [Errno 13] Permission denied: ''
                  @ [CHR 0x27] @ ''/home/u/tools/web3se-lab/web3-scanner'' @ [CHR 0x27]],
        [EvUrlopen ''http://localhost:9900'', EvUrlopen ''http://localhost:8081'',
         EvExists ''/home/u/tools/web3se-lab/web3-scanner''])"
  by (simp add: call_tool_def check_web3se_status_def scanner_status_def locked_urls
      locked_fields exists_path_def locked_fs_def)

section \<open>The command line of the scanner\<close>

text \<open>The items of the command line are the scanner, \<^verbatim>\<open>scan\<close>, the repository path and
  the flags; when each of them is a string they are joined by single spaces.\<close>
lemma scanner_line_joined:
  assumes "truthy output_file \<longrightarrow> is_str output_file"
  shows "join_parts w (cmd_parts w (PStr repo) with_intent with_embed output_file)
     = Inr (web3_scanner w @ '' scan '' @ repo
            @ (if truthy with_intent then '' --intent'' else [])
            @ (if truthy with_embed then '' --embed'' else [])
            @ (if truthy output_file then '' --output '' @ py_str output_file else []))"
proof (cases "truthy output_file")
  case False
  then show ?thesis
    by (simp add: join_parts_def cmd_parts_def is_str_def)
next
  case True
  with assms obtain f where "output_file = PStr f"
    by (cases output_file) (simp_all add: is_str_def)
  with True show ?thesis
    by (simp add: join_parts_def cmd_parts_def is_str_def)
qed

lemma web3_scanner_scan_spawns:
  assumes "truthy (arg_get arguments ''repository_path'' (PStr []))"
    and "exists_path w (web3_scanner w) = Inr True"
    and "join_parts w (cmd_parts w (arg_get arguments ''repository_path'' (PStr []))
           (arg_get arguments ''with_intent'' (PBool True))
           (arg_get arguments ''with_embed'' (PBool True))
           (arg_get arguments ''output_file'' (PStr []))) = Inr line"
  shows "\<exists>result rest. web3_scanner_scan w arguments
          = (result, EvExists (web3_scanner w)
                     # EvSpawn line (Some (web3se_lab_dir w)) (DEFAULT_ENV w) # rest)
          \<and> (\<forall>c d env. EvSpawn c d env \<notin> set rest)"
proof (cases "spawn w line (Some (web3se_lab_dir w)) (DEFAULT_ENV w)")
  case (Inl e)
  with assms show ?thesis
    by (simp add: web3_scanner_scan_def Let_def shell_def)
next
  case (Inr process)
  show ?thesis
  proof (cases "wait_for w (PInt 600) process")
    case Done
    obtain r t2 where sn: "saved_note w (arg_get arguments ''output_file'' (PStr [])) = (r, t2)"
      by (cases "saved_note w (arg_get arguments ''output_file'' (PStr []))")
    then have "\<forall>c d env. EvSpawn c d env \<notin> set t2"
      by (blast dest: saved_note_no_spawn)
    with assms Inr Done sn show ?thesis
      by (cases r) (simp_all add: web3_scanner_scan_def Let_def shell_def)
  qed (use assms Inr in \<open>simp_all add: web3_scanner_scan_def Let_def shell_def\<close>)
qed

text \<open>
  C7, as amended. With a repository path that is a non-empty string, an output file that
  is absent, a string or a value that counts as false, and the scanner found on disk, the
  handler starts exactly one command, in the directory of web3se-lab: the scanner's path,
  \<^verbatim>\<open>scan\<close>, the repository path, then \<^verbatim>\<open>--intent\<close> exactly when the value of \<^verbatim>\<open>with_intent\<close>
  counts as true (an absent one does), then \<^verbatim>\<open>--embed\<close> exactly when the value of
  \<^verbatim>\<open>with_embed\<close> counts as true (an absent one does), then \<^verbatim>\<open>--output\<close> and the file exactly
  when the output file is not empty, with single spaces between them.
\<close>
theorem scanner_command_line:
  assumes "arguments ''repository_path'' = Some (PStr repo)" and "repo \<noteq> []"
    and "truthy (arg_get arguments ''output_file'' (PStr []))
         \<longrightarrow> is_str (arg_get arguments ''output_file'' (PStr []))"
    and "exists_path w (web3_scanner w) = Inr True"
  shows "\<exists>result rest.
           call_tool w ''web3_scanner_scan'' arguments
           = (result,
              EvExists (web3_scanner w)
              # EvSpawn
                  (web3_scanner w @ '' scan '' @ repo
                   @ (if truthy (arg_get arguments ''with_intent'' (PBool True))
                      then '' --intent'' else [])
                   @ (if truthy (arg_get arguments ''with_embed'' (PBool True))
                      then '' --embed'' else [])
                   @ (if truthy (arg_get arguments ''output_file'' (PStr []))
                      then '' --output '' @ py_str (arg_get arguments ''output_file'' (PStr []))
                      else []))
                  (Some (web3se_lab_dir w)) (DEFAULT_ENV w)
              # rest)
           \<and> (\<forall>c d env. EvSpawn c d env \<notin> set rest)"
proof -
  have repo: "arg_get arguments ''repository_path'' (PStr []) = PStr repo"
    using assms(1) by (simp add: arg_get_def)
  have given: "truthy (arg_get arguments ''repository_path'' (PStr []))"
    unfolding repo using assms(2) by simp
  note line = scanner_line_joined [OF assms(3), of w repo
      "arg_get arguments ''with_intent'' (PBool True)"
      "arg_get arguments ''with_embed'' (PBool True)", folded repo]
  from web3_scanner_scan_spawns [OF given assms(4) line]
  show ?thesis
    unfolding call_tool_def by simp
qed

text \<open>On the first machine: intents by default, embeddings refused by the number zero,
  results to a file.\<close>
theorem scanner_command_line_witness:
  "exists_path home_world (web3_scanner home_world) = Inr True
   \<and> (\<exists>result rest.
        call_tool home_world ''web3_scanner_scan''
          [''repository_path'' \<mapsto> PStr ''.'', ''with_embed'' \<mapsto> PInt 0,
           ''output_file'' \<mapsto> PStr ''out.json'']
        = (result,
           EvExists ''/home/u/tools/web3se-lab/web3-scanner''
           # EvSpawn ''/home/u/tools/web3se-lab/web3-scanner scan . --intent --output out.json''
               (Some ''/home/u/tools/web3se-lab'') (DEFAULT_ENV home_world)
           # rest)
        \<and> (\<forall>c d env. EvSpawn c d env \<notin> set rest))"
proof -
  define a where "a = [''repository_path'' \<mapsto> PStr ''.'', ''with_embed'' \<mapsto> PInt 0,
                       ''output_file'' \<mapsto> PStr ''out.json'']"
  have there: "exists_path home_world (web3_scanner home_world) = Inr True"
    by (simp add: home_urls exists_path_def home_fields home_fs_def)
  have a1: "a ''repository_path'' = Some (PStr ''.'')" by (simp add: a_def)
  have a2: "''.'' \<noteq> []" by simp
  have a3: "truthy (arg_get a ''output_file'' (PStr []))
            \<longrightarrow> is_str (arg_get a ''output_file'' (PStr []))"
    by (simp add: a_def arg_get_def is_str_def)
  from scanner_command_line [OF a1 a2 a3 there]
  have "\<exists>result rest.
        call_tool home_world ''web3_scanner_scan'' a
        = (result,
           EvExists ''/home/u/tools/web3se-lab/web3-scanner''
           # EvSpawn ''/home/u/tools/web3se-lab/web3-scanner scan . --intent --output out.json''
               (Some ''/home/u/tools/web3se-lab'') (DEFAULT_ENV home_world)
           # rest)
        \<and> (\<forall>c d env. EvSpawn c d env \<notin> set rest)"
    by (simp add: home_urls a_def arg_get_def)
  with there show ?thesis
    unfolding a_def by blast
qed

text \<open>
  C7 as stated fails for a repository path that is present and empty: the scanner is on
  disk, and the handler answers that no path was provided without looking for it or
  starting anything.
\<close>
theorem empty_repository_path_runs_nothing:
  "[''repository_path'' \<mapsto> PStr []] ''repository_path'' = Some (PStr [])
   \<and> exists_path home_world (web3_scanner home_world) = Inr True
   \<and> call_tool home_world ''web3_scanner_scan'' [''repository_path'' \<mapsto> PStr []]
       = (Returned [''Error: No repository path provided''], [])"
  by (simp add: call_tool_def web3_scanner_scan_def arg_get_def home_urls exists_path_def
      home_fields home_fs_def)

text \<open>It also fails for a flag that is not a boolean: the text \<^verbatim>\<open>false\<close> is not true, and
  \<^verbatim>\<open>--intent\<close> is passed all the same, since a text that is not empty counts as true.\<close>
lemma intent_flag_by_truth_value:
  "call_tool home_world ''web3_scanner_scan''
     [''repository_path'' \<mapsto> PStr ''.'', ''with_intent'' \<mapsto> PStr ''false'']
   = (Returned [''Web3 Scanner Results:'' @ NL @ ''Repository: .'' @ NL
                @ ''Exit Code: 0'' @ NL @ rule50 @ NL @ ''STDOUT:'' @ NL @ ''hello'' @ NL],
      [EvExists ''/home/u/tools/web3se-lab/web3-scanner'',
       EvSpawn ''/home/u/tools/web3se-lab/web3-scanner scan . --intent --embed''
         (Some ''/home/u/tools/web3se-lab'') (DEFAULT_ENV home_world)])"
  by (simp add: call_defs web3_scanner_scan_def join_parts_def cmd_parts_def is_str_def
      saved_note_def home_urls home_fields home_fs_def home_child_def streams_def
      str_int_def str_nat.simps)

text \<open>And for a repository path that is not a text: joining the items raises, and the
  handler reports the error without starting anything.\<close>
lemma numeric_repository_path_runs_nothing:
  "call_tool home_world ''web3_scanner_scan'' [''repository_path'' \<mapsto> PInt 5]
   = (Returned [''Error running web3-scanner: TypeError'' @ NL @ ''Repository: 5''],
      [EvExists ''/home/u/tools/web3se-lab/web3-scanner''])"
  by (simp add: call_defs web3_scanner_scan_def join_parts_def cmd_parts_def is_str_def
      home_urls home_fields home_fs_def str_int_def str_nat.simps)

section \<open>The working directory of a security tool\<close>

lemma find_with_alias_exists:
  assumes "find_with_alias w n = (Inr (Some info), t)"
  shows "exists_path w (cwd info) = Inr True"
proof (cases "find_tool_executable w n")
  case (Pair r t0)
  show ?thesis
  proof (cases r)
    case (Inl e)
    with Pair assms show ?thesis
      by (simp add: find_with_alias_def)
  next
    case (Inr found)
    show ?thesis
    proof (cases found)
      case (Some i)
      with Pair Inr assms have "fst (find_tool_executable w n) = Inr (Some info)"
        by (simp add: find_with_alias_def)
      then show ?thesis by (rule find_tool_executable_exists)
    next
      case None
      with Pair Inr assms have "fst (find_tool_executable w ''securify2'') = Inr (Some info)"
        by (simp add: find_with_alias_def split: if_splits)
      then show ?thesis by (rule find_tool_executable_exists)
    qed
  qed
qed

text \<open>What \<open>run_found\<close> does once both paths are resolved and the tool's directory is
  there: the caller's directory occurs in the resolution event only.\<close>
lemma run_found_in_tool_cwd:
  assumes "resolve w (cwd info) = Inr tool_cwd" and "exists_path w tool_cwd = Inr True"
  shows "\<exists>result rest.
           (\<forall>d work_dir. resolve w d = Inr work_dir \<longrightarrow>
              run_found w tool_name tool_args (PStr d) timeout info
              = (result,
                 [EvResolve d, EvResolve (cwd info), EvExists tool_cwd,
                  EvSpawn (py_strip (info_command info @ '' '' @ py_str tool_args))
                    (Some tool_cwd) (DEFAULT_ENV w)] @ rest))
           \<and> set rest \<subseteq> {EvKill, EvWait}
           \<and> (\<forall>p. result \<noteq> Returned [''Error: Working directory does not exist: '' @ p])"
proof (cases "spawn w (py_strip (info_command info @ '' '' @ py_str tool_args))
                (Some tool_cwd) (DEFAULT_ENV w)")
  case (Inl e)
  let ?result = "Returned [''Error running security tool: '' @ e @ NL
                           @ ''Tool: '' @ tool_name @ NL
                           @ ''Arguments: '' @ py_str tool_args]"
  show ?thesis
    using assms Inl
    by (intro exI [of _ ?result] exI [of _ "[]"])
       (simp add: run_found_def path_resolve_def shell_def prepare_env_DEFAULT_ENV Let_def)
next
  case (Inr process)
  show ?thesis
  proof (cases "wait_for w timeout process")
    case Done
    let ?result = "Returned [''Security Tool Execution: '' @ tool_name @ NL
                     @ ''Command: '' @ py_strip (info_command info @ '' '' @ py_str tool_args)
                     @ NL @ ''Working Directory: '' @ tool_cwd @ NL
                     @ ''Exit Code: '' @ str_int (returncode process) @ NL
                     @ rule50 @ NL @ streams process]"
    show ?thesis
      using assms Inr Done
      by (intro exI [of _ ?result] exI [of _ "[]"])
         (simp add: run_found_def path_resolve_def shell_def prepare_env_DEFAULT_ENV Let_def)
  next
    case TimedOut
    let ?result = "if reaped process
                   then Returned [''Error: Tool execution timed out after ''
                     @ py_str timeout @ '' seconds'' @ NL
                     @ ''Tool: '' @ tool_name @ NL
                     @ ''Command: '' @ py_strip (info_command info @ '' '' @ py_str tool_args)]
                   else NoReturn"
    show ?thesis
      using assms Inr TimedOut
      by (intro exI [of _ ?result] exI [of _ "[EvKill, EvWait]"])
         (simp add: run_found_def path_resolve_def shell_def prepare_env_DEFAULT_ENV Let_def)
  next
    case Forever
    show ?thesis
      using assms Inr Forever
      by (intro exI [of _ NoReturn] exI [of _ "[]"])
         (simp add: run_found_def path_resolve_def shell_def prepare_env_DEFAULT_ENV Let_def)
  next
    case (WaitRaises e)
    let ?result = "Returned [''Error running security tool: '' @ e @ NL
                           @ ''Tool: '' @ tool_name @ NL
                           @ ''Arguments: '' @ py_str tool_args]"
    show ?thesis
      using assms Inr WaitRaises
      by (intro exI [of _ ?result] exI [of _ "[]"])
         (simp add: run_found_def path_resolve_def shell_def prepare_env_DEFAULT_ENV Let_def)
  qed
qed

lemma run_security_tool_found:
  assumes "arg_get arguments ''tool_name'' (PStr []) = PStr s" and "s \<noteq> []"
    and "find_with_alias w (py_lower w s) = (Inr (Some info), t)"
    and "run_found w (py_lower w s) (arg_get arguments ''arguments'' (PStr []))
           (arg_get arguments ''working_directory'' (PStr ''.''))
           (arg_get arguments ''timeout'' (PInt 300)) info = (result, u)"
  shows "run_security_tool w arguments = (result, t @ u)"
proof -
  have "py_lower w s \<noteq> []"
    using assms(3) by (rule find_with_alias_nonempty)
  then show ?thesis
    unfolding run_security_tool_def assms(1)
    by (simp add: Let_def assms(3) assms(4))
qed

text \<open>
  C9, as amended. When the tool is found and the caller's \<^verbatim>\<open>working_directory\<close> can be
  expanded and resolved, the child is started in the tool's own directory (resolved, and
  naming the same node as before resolution). The caller's directory occurs in one event
  only, its resolution: with any other directory that resolves, the result and every
  other event are the same. After the resolver's probes the only existence check is on
  the tool's directory, and the result is never the report of a missing working
  directory.
\<close>
theorem working_directory_unused:
  assumes "arguments ''tool_name'' = Some (PStr s)" and "s \<noteq> []"
    and "find_with_alias w (py_lower w s) = (Inr (Some info), t)"
    and "arg_get arguments ''working_directory'' (PStr ''.'') = PStr d"
    and "resolve w d = Inr work_dir"
    and "resolve w (cwd info) = Inr tool_cwd"
    and "fs w tool_cwd = fs w (cwd info)"
  shows "\<exists>result rest.
           call_tool w ''run_security_tool'' arguments
           = (result,
              t @ [EvResolve d, EvResolve (cwd info), EvExists tool_cwd,
                   EvSpawn (py_strip (info_command info @ '' ''
                                      @ py_str (arg_get arguments ''arguments'' (PStr []))))
                     (Some tool_cwd) (DEFAULT_ENV w)] @ rest)
         \<and> (\<forall>d' work_dir'. resolve w d' = Inr work_dir' \<longrightarrow>
               call_tool w ''run_security_tool''
                 (arguments(''working_directory'' \<mapsto> PStr d'))
               = (result,
                  t @ [EvResolve d', EvResolve (cwd info), EvExists tool_cwd,
                       EvSpawn (py_strip (info_command info @ '' ''
                                          @ py_str (arg_get arguments ''arguments'' (PStr []))))
                         (Some tool_cwd) (DEFAULT_ENV w)] @ rest))
         \<and> set rest \<subseteq> {EvKill, EvWait}
         \<and> (\<forall>p. result \<noteq> Returned [''Error: Working directory does not exist: '' @ p])"
proof -
  let ?args = "arg_get arguments ''arguments'' (PStr [])"
  let ?tv = "arg_get arguments ''timeout'' (PInt 300)"
  have "exists_path w (cwd info) = Inr True"
    using assms(3) by (rule find_with_alias_exists)
  with assms(7) have there: "exists_path w tool_cwd = Inr True"
    by (simp add: exists_path_def)
  from run_found_in_tool_cwd [OF assms(6) there, of "py_lower w s" ?args ?tv]
  obtain result rest where
    run: "\<And>d work_dir. resolve w d = Inr work_dir \<Longrightarrow>
              run_found w (py_lower w s) ?args (PStr d) ?tv info
              = (result,
                 [EvResolve d, EvResolve (cwd info), EvExists tool_cwd,
                  EvSpawn (py_strip (info_command info @ '' '' @ py_str ?args))
                    (Some tool_cwd) (DEFAULT_ENV w)] @ rest)"
    and rest: "set rest \<subseteq> {EvKill, EvWait}"
    and no_missing: "\<forall>p. result \<noteq> Returned [''Error: Working directory does not exist: '' @ p]"
    by blast
  have name: "arg_get arguments ''tool_name'' (PStr []) = PStr s"
    using assms(1) by (simp add: arg_get_def)
  have here: "call_tool w ''run_security_tool'' arguments
           = (result,
              t @ [EvResolve d, EvResolve (cwd info), EvExists tool_cwd,
                   EvSpawn (py_strip (info_command info @ '' '' @ py_str ?args))
                     (Some tool_cwd) (DEFAULT_ENV w)] @ rest)"
    using run_security_tool_found [OF name assms(2) assms(3)] run [OF assms(5)] assms(4)
    by (simp add: call_tool_def)
  have other: "call_tool w ''run_security_tool'' (arguments(''working_directory'' \<mapsto> PStr d'))
               = (result,
                  t @ [EvResolve d', EvResolve (cwd info), EvExists tool_cwd,
                       EvSpawn (py_strip (info_command info @ '' '' @ py_str ?args))
                         (Some tool_cwd) (DEFAULT_ENV w)] @ rest)"
    if "resolve w d' = Inr work_dir'" for d' work_dir'
  proof -
    let ?a = "arguments(''working_directory'' \<mapsto> PStr d')"
    have n: "arg_get ?a ''tool_name'' (PStr []) = PStr s"
      using assms(1) by (simp add: arg_get_def)
    have a: "arg_get ?a ''arguments'' (PStr []) = ?args"
      by (simp add: arg_get_def)
    have v: "arg_get ?a ''timeout'' (PInt 300) = ?tv"
      by (simp add: arg_get_def)
    have wd: "arg_get ?a ''working_directory'' (PStr ''.'') = PStr d'"
      by (simp add: arg_get_def)
    have "run_found w (py_lower w s) (arg_get ?a ''arguments'' (PStr []))
           (arg_get ?a ''working_directory'' (PStr ''.''))
           (arg_get ?a ''timeout'' (PInt 300)) info
          = (result,
                 [EvResolve d', EvResolve (cwd info), EvExists tool_cwd,
                  EvSpawn (py_strip (info_command info @ '' '' @ py_str ?args))
                    (Some tool_cwd) (DEFAULT_ENV w)] @ rest)"
      unfolding a v wd by (rule run [OF that])
    from run_security_tool_found [OF n assms(2) assms(3) this]
    show ?thesis
      by (simp add: call_tool_def)
  qed
  from here other rest no_missing show ?thesis
    by blast
qed

text \<open>On the first machine: slither asked to run in \<^verbatim>\<open>/tmp\<close>, which does not exist
  there, runs in its own directory, as it does when asked to run in \<^verbatim>\<open>.\<close>\<close>
theorem working_directory_unused_witness:
  "resolve home_world ''/tmp'' = Inr ''/tmp'' \<and> exists_path home_world ''/tmp'' = Inr False
   \<and> (\<exists>result rest.
         call_tool home_world ''run_security_tool''
           [''tool_name'' \<mapsto> PStr ''slither'', ''arguments'' \<mapsto> PStr ''.'',
            ''working_directory'' \<mapsto> PStr ''/tmp'']
         = (result,
            [EvExists ''/home/u/tools/slither'',
             EvExists ''/home/u/tools/slither/slither/slither/py'',
             EvExists ''/home/u/tools/slither/slither/slither/py/__init__.py'',
             EvExists ''/home/u/tools/slither/slither'',
             EvAccess ''/home/u/tools/slither/slither'']
            @ [EvResolve ''/tmp'', EvResolve ''/home/u/tools/slither'',
               EvExists ''/home/u/tools/slither'',
               EvSpawn ''/home/u/tools/slither/slither .'' (Some ''/home/u/tools/slither'')
                 (DEFAULT_ENV home_world)] @ rest)
       \<and> set rest \<subseteq> {EvKill, EvWait}
       \<and> (\<forall>p. result \<noteq> Returned [''Error: Working directory does not exist: '' @ p]))"
proof -
  define a where "a = [''tool_name'' \<mapsto> PStr ''slither'', ''arguments'' \<mapsto> PStr ''.'',
                       ''working_directory'' \<mapsto> PStr ''/tmp'']"
  let ?info = "\<lparr>info_command = ''/home/u/tools/slither/slither'',
                cwd = ''/home/u/tools/slither'',
                info_description = ''Slither static analyzer''\<rparr>"
  have r: "resolve home_world ''/tmp'' = Inr ''/tmp''"
    by (simp add: home_fields)
  have absent: "exists_path home_world ''/tmp'' = Inr False"
    by (simp add: exists_path_def home_fields home_fs_def)
  have a1: "a ''tool_name'' = Some (PStr ''slither'')" by (simp add: a_def)
  have a2: "''slither'' \<noteq> []" by simp
  have low: "py_lower home_world ''slither'' = ''slither''" by (rule home_lower)
  have a3: "find_with_alias home_world (py_lower home_world ''slither'')
              = (Inr (Some ?info),
                 [EvExists ''/home/u/tools/slither'',
                  EvExists ''/home/u/tools/slither/slither/slither/py'',
                  EvExists ''/home/u/tools/slither/slither/slither/py/__init__.py'',
                  EvExists ''/home/u/tools/slither/slither'',
                  EvAccess ''/home/u/tools/slither/slither''])"
    unfolding low by (rule home_slither)
  have a4: "arg_get a ''working_directory'' (PStr ''.'') = PStr ''/tmp''"
    by (simp add: a_def arg_get_def)
  have a6: "resolve home_world (cwd ?info) = Inr ''/home/u/tools/slither''"
    by (simp add: home_fields)
  have a7: "fs home_world ''/home/u/tools/slither'' = fs home_world (cwd ?info)"
    by simp
  have strip: "py_strip (info_command ?info @ '' '' @ py_str (arg_get a ''arguments'' (PStr [])))
                 = ''/home/u/tools/slither/slither .''"
    by (simp add: a_def arg_get_def string_defs)
  from working_directory_unused [OF a1 a2 a3 a4 r a6 a7]
  have "\<exists>result rest.
         call_tool home_world ''run_security_tool'' a
         = (result,
            [EvExists ''/home/u/tools/slither'',
             EvExists ''/home/u/tools/slither/slither/slither/py'',
             EvExists ''/home/u/tools/slither/slither/slither/py/__init__.py'',
             EvExists ''/home/u/tools/slither/slither'',
             EvAccess ''/home/u/tools/slither/slither'']
            @ [EvResolve ''/tmp'', EvResolve ''/home/u/tools/slither'',
               EvExists ''/home/u/tools/slither'',
               EvSpawn ''/home/u/tools/slither/slither .'' (Some ''/home/u/tools/slither'')
                 (DEFAULT_ENV home_world)] @ rest)
       \<and> set rest \<subseteq> {EvKill, EvWait}
       \<and> (\<forall>p. result \<noteq> Returned [''Error: Working directory does not exist: '' @ p])"
    unfolding strip by (elim exE conjE) (intro exI conjI, simp_all)
  with r absent show ?thesis
    unfolding a_def by blast
qed

text \<open>
  C9 as stated fails when the caller's directory cannot be resolved: the expression is
  evaluated although its value is not used, and on the first machine, where slither is
  found, a \<^verbatim>\<open>working_directory\<close> of \<^verbatim>\<open>~nosuchuser\<close> ends the operation before anything is
  started.
\<close>
theorem unresolvable_working_directory_aborts:
  "fst (find_with_alias home_world ''slither'')
     = Inr (Some \<lparr>info_command = ''/home/u/tools/slither/slither'',
                    cwd = ''/home/u/tools/slither'',
                    info_description = ''Slither static analyzer''\<rparr>)
   \<and> call_tool home_world ''run_security_tool''
         [''tool_name'' \<mapsto> PStr ''slither'', ''arguments'' \<mapsto> PStr ''.'',
          ''working_directory'' \<mapsto> PStr ''~nosuchuser'']
       = (Returned [''Error running security tool: Could not determine home directory.'' @ NL
                    @ ''Tool: slither'' @ NL @ ''Arguments: .''],
          [EvExists ''/home/u/tools/slither'',
           EvExists ''/home/u/tools/slither/slither/slither/py'',
           EvExists ''/home/u/tools/slither/slither/slither/py/__init__.py'',
           EvExists ''/home/u/tools/slither/slither'',
           EvAccess ''/home/u/tools/slither/slither'',
           EvResolve ''~nosuchuser''])"
  by (simp add: call_tool_def run_security_tool_def run_found_def arg_get_def home_lower
      home_slither Let_def path_resolve_def home_fields)

end
